theory Spec2Isabelle
  imports Complex_Main
begin

section \<open>Values of the host language\<close>

text \<open>
  The aircraft endpoint is read with \<^verbatim>\<open>this.http.get<any>(allPlanesApi)\<close>: the response
  is an untyped value, and every record in it is typed \<^verbatim>\<open>any\<close>. It is modelled as a value
  of the language: the JSON values, and \<^verbatim>\<open>undefined\<close>. Numbers are rationals: the code
  does no arithmetic on them, it compares them with \<^verbatim>\<open>0\<close> and copies them. An object is
  the association list of its own properties.
\<close>

datatype jsval =
    JUndefined
  | JNull
  | JBool bool
  | JNum rat
  | JStr string
  | JArr "jsval list"
  | JObj "(string \<times> jsval) list"

text \<open>
  What can be thrown: the rejection of the HTTP request, the \<^verbatim>\<open>TypeError\<close> of reading a
  property of \<^verbatim>\<open>null\<close> or \<^verbatim>\<open>undefined\<close> or of calling what is not a function (the string
  names the property), and the error an image load reports.
\<close>

datatype error =
    HttpError string
  | TypeError string
  | ImageError string

text \<open>
  \<^verbatim>\<open>v.k\<close>: a \<^verbatim>\<open>TypeError\<close> on \<^verbatim>\<open>null\<close> and \<^verbatim>\<open>undefined\<close>, the own property of an object or
  \<^verbatim>\<open>undefined\<close> when there is none, and \<^verbatim>\<open>undefined\<close> on every other value (none of the
  names the component reads, \<^verbatim>\<open>ac lat lon flight track\<close>, is inherited from a prototype).
\<close>

definition getProp :: "jsval \<Rightarrow> string \<Rightarrow> error + jsval" where
  "getProp v k =
     (case v of
        JUndefined \<Rightarrow> Inl (TypeError k)
      | JNull \<Rightarrow> Inl (TypeError k)
      | JObj kvs \<Rightarrow> Inr (case map_of kvs k of Some x \<Rightarrow> x | None \<Rightarrow> JUndefined)
      | _ \<Rightarrow> Inr JUndefined)"

text \<open>Truthiness, and \<^verbatim>\<open>a || b\<close>, which yields \<^verbatim>\<open>a\<close> itself when it is truthy.\<close>

fun truthy :: "jsval \<Rightarrow> bool" where
  "truthy JUndefined = False"
| "truthy JNull = False"
| "truthy (JBool b) = b"
| "truthy (JNum n) = (n \<noteq> 0)"
| "truthy (JStr s) = (s \<noteq> [])"
| "truthy (JArr xs) = True"
| "truthy (JObj kvs) = True"

definition js_or :: "jsval \<Rightarrow> jsval \<Rightarrow> jsval" where
  "js_or a b = (if truthy a then a else b)"

text \<open>
  \<^verbatim>\<open>Array.prototype.filter\<close> and \<^verbatim>\<open>Array.prototype.map\<close> with a callback that may throw:
  the elements are visited in order and the first exception ends the call.
\<close>

fun filter_arr :: "('a \<Rightarrow> error + bool) \<Rightarrow> 'a list \<Rightarrow> error + 'a list" where
  "filter_arr p [] = Inr []"
| "filter_arr p (x # xs) =
     (case p x of
        Inl e \<Rightarrow> Inl e
      | Inr b \<Rightarrow>
          (case filter_arr p xs of
             Inl e \<Rightarrow> Inl e
           | Inr ys \<Rightarrow> Inr (if b then x # ys else ys)))"

fun map_arr :: "('a \<Rightarrow> error + 'b) \<Rightarrow> 'a list \<Rightarrow> error + 'b list" where
  "map_arr f [] = Inr []"
| "map_arr f (x # xs) =
     (case f x of
        Inl e \<Rightarrow> Inl e
      | Inr y \<Rightarrow>
          (case map_arr f xs of
             Inl e \<Rightarrow> Inl e
           | Inr ys \<Rightarrow> Inr (y # ys)))"

section \<open>GeoJSON data and the map\<close>

text \<open>
  The GeoJSON objects the component builds: a geometry is its \<^verbatim>\<open>type\<close> and its
  \<^verbatim>\<open>coordinates\<close> (for a point one position, for a line string an array of positions; a
  position is an array), a feature a geometry and a properties object. A source is
  registered with a GeoJSON datum or with the URL of a vector tile set.
\<close>

record geometry =
  geom_type :: string
  coordinates :: jsval

record feature =
  geometry :: geometry
  properties :: "(string \<times> jsval) list"

datatype geojson =
    FeatureCollection "feature list"
  | Feature feature

datatype source_spec =
    GeoJSONSource geojson
  | VectorSource string

record layer =
  layer_id :: string
  layer_type :: string
  layer_source :: string
  source_layer :: "string option"
  layout :: "(string \<times> jsval) list"
  paint :: "(string \<times> jsval) list"
  layer_filter :: "jsval option"

datatype image = Image string

text \<open>
  The map instance, as far as the component uses it: the options it was constructed
  with, the registered images, sources and layers (a layer with the id of the layer it
  was inserted before, if any), whether a \<^verbatim>\<open>load\<close> handler waits for the style, the
  image loads that have been requested and not yet answered, each with the name of the
  icon its callback registers, and whether \<^verbatim>\<open>remove()\<close> has been called. The hover
  handlers and the popup write to none of these and are left out.
\<close>

record mapbox_map =
  container :: string
  style :: string
  zoom :: rat
  center :: "rat \<times> rat"
  images :: "(string \<times> image) list"
  sources :: "string \<rightharpoonup> source_spec"
  layers :: "(layer \<times> string option) list"
  load_pending :: bool
  image_requests :: "(string \<times> string) list"
  removed :: bool

definition addImage :: "string \<Rightarrow> image \<Rightarrow> mapbox_map \<Rightarrow> mapbox_map" where
  "addImage n img m = m\<lparr>images := images m @ [(n, img)]\<rparr>"

definition addSource :: "string \<Rightarrow> source_spec \<Rightarrow> mapbox_map \<Rightarrow> mapbox_map" where
  "addSource n src m = m\<lparr>sources := (sources m)(n \<mapsto> src)\<rparr>"

text \<open>
  The library compiles the expressions of a layer before it adds the layer, and a layer
  with an expression it rejects is reported and not added. Of the expressions the
  component writes, only the \<^verbatim>\<open>match\<close> of the fill colour depends on data: the branches
  after its input are pairs of a label and an output, then the fallback, and the library
  rejects a \<^verbatim>\<open>match\<close> with no branch, with an even number of arguments after the input,
  or with a repeated label. The layer a new layer is to be inserted before belongs to the
  style the map was constructed with, which the model does not hold: its id is recorded
  with the layer.
\<close>

fun match_labels :: "jsval list \<Rightarrow> jsval list" where
  "match_labels (label # output # rest) = label # match_labels rest"
| "match_labels rest = []"

definition match_valid :: "jsval list \<Rightarrow> bool" where
  "match_valid branches =
     (3 \<le> length branches \<and> odd (length branches) \<and> distinct (match_labels branches))"

definition expression_ok :: "jsval \<Rightarrow> bool" where
  "expression_ok v =
     (case v of
        JArr (operator # input # branches) \<Rightarrow>
          (if operator = JStr ''match'' then match_valid branches else True)
      | _ \<Rightarrow> True)"

definition layer_ok :: "layer \<Rightarrow> bool" where
  "layer_ok l = list_all (\<lambda>kv. expression_ok (snd kv)) (layout l @ paint l)"

definition addLayer :: "layer \<Rightarrow> string option \<Rightarrow> mapbox_map \<Rightarrow> mapbox_map" where
  "addLayer l before m = (if layer_ok l then m\<lparr>layers := layers m @ [(l, before)]\<rparr> else m)"

definition loadImage :: "string \<Rightarrow> string \<Rightarrow> mapbox_map \<Rightarrow> mapbox_map" where
  "loadImage url icon m = m\<lparr>image_requests := image_requests m @ [(url, icon)]\<rparr>"

text \<open>
  \<^verbatim>\<open>remove()\<close> destroys the style of the map and leaves the instance without one. It
  does not cancel the image loads under way. \<^verbatim>\<open>getSource\<close> asks the style for the
  source: on a removed map there is no style to ask, and the call throws a \<^verbatim>\<open>TypeError\<close>;
  otherwise it yields the source, or \<^verbatim>\<open>undefined\<close> when none has the name.
\<close>

definition remove :: "mapbox_map \<Rightarrow> mapbox_map" where
  "remove m = m\<lparr>removed := True\<rparr>"

definition getSource :: "string \<Rightarrow> mapbox_map \<Rightarrow> error + source_spec option" where
  "getSource n m = (if removed m then Inl (TypeError ''getSource'') else Inr (sources m n))"

definition setData :: "string \<Rightarrow> geojson \<Rightarrow> mapbox_map \<Rightarrow> mapbox_map" where
  "setData n d m = m\<lparr>sources := (sources m)(n \<mapsto> GeoJSONSource d)\<rparr>"

section \<open>The component\<close>

text \<open>
  The state of one \<^verbatim>\<open>MapComponent\<close>: its fields \<^verbatim>\<open>map\<close> and \<^verbatim>\<open>isFetching\<close>, where the
  asynchronous \<^verbatim>\<open>startFetchingPlanes\<close> is suspended, what \<^verbatim>\<open>console.error\<close> has logged, and
  the exceptions that left a callback uncaught. The fields \<^verbatim>\<open>style lat lng zoom\<close> are never
  assigned after construction and appear as the constants of \<open>new_map\<close>; \<^verbatim>\<open>popup\<close> belongs
  to the hover handlers.
\<close>

datatype loop_pc =
    NotStarted
  | AwaitFetch
  | AwaitDelay nat
  | Finished

record component =
  map_m :: "mapbox_map option"
  isFetching :: bool
  loop :: loop_pc
  console :: "error list"
  uncaught :: "error list"

subsection \<open>fetchPlanes\<close>

text \<open>
  The filter callback,
  \<^verbatim>\<open>plane.lat !== 0 && plane.lon !== 0 && plane.flight !== undefined\<close>, with the exception
  each property read can throw and the short circuit of \<^verbatim>\<open>&&\<close>.
\<close>

definition plane_filter :: "jsval \<Rightarrow> error + bool" where
  "plane_filter plane =
     (case getProp plane ''lat'' of
        Inl e \<Rightarrow> Inl e
      | Inr lat \<Rightarrow>
          if lat = JNum 0 then Inr False
          else
            (case getProp plane ''lon'' of
               Inl e \<Rightarrow> Inl e
             | Inr lon \<Rightarrow>
                 if lon = JNum 0 then Inr False
                 else
                   (case getProp plane ''flight'' of
                      Inl e \<Rightarrow> Inl e
                    | Inr flight \<Rightarrow> Inr (flight \<noteq> JUndefined))))"

text \<open>The map callback: the point feature of one record.\<close>

definition plane_feature :: "jsval \<Rightarrow> error + feature" where
  "plane_feature plane =
     (case getProp plane ''lon'' of
        Inl e \<Rightarrow> Inl e
      | Inr lon \<Rightarrow>
          (case getProp plane ''lat'' of
             Inl e \<Rightarrow> Inl e
           | Inr lat \<Rightarrow>
               (case getProp plane ''track'' of
                  Inl e \<Rightarrow> Inl e
                | Inr track \<Rightarrow>
                    (case getProp plane ''flight'' of
                       Inl e \<Rightarrow> Inl e
                     | Inr flight \<Rightarrow>
                         Inr \<lparr>geometry = \<lparr>geom_type = ''Point'', coordinates = JArr [lon, lat]\<rparr>,
                              properties = [(''heading'', js_or track (JNum 0)),
                                            (''flight'', flight)]\<rparr>))))"

text \<open>
  \<^verbatim>\<open>response.ac.filter(...).map(...)\<close>: reading \<^verbatim>\<open>ac\<close> throws on a \<^verbatim>\<open>null\<close> response, and
  \<^verbatim>\<open>.filter\<close> can be called on an array only (on \<^verbatim>\<open>undefined\<close> the read throws, on any
  other value \<^verbatim>\<open>filter\<close> is not a function).
\<close>

definition planes_of_response :: "jsval \<Rightarrow> error + feature list" where
  "planes_of_response response =
     (case getProp response ''ac'' of
        Inl e \<Rightarrow> Inl e
      | Inr ac \<Rightarrow>
          (case ac of
             JArr xs \<Rightarrow>
               (case filter_arr plane_filter xs of
                  Inl e \<Rightarrow> Inl e
                | Inr ys \<Rightarrow> map_arr plane_feature ys)
           | _ \<Rightarrow> Inl (TypeError ''filter'')))"

text \<open>
  \<^verbatim>\<open>this.map?.getSource('planes')\<close> is \<^verbatim>\<open>undefined\<close> when there is no map, and is
  the library's answer otherwise, which may be an exception.
  \<^verbatim>\<open>if (source) source.setData(geojson)\<close> replaces the data of a GeoJSON source; on any
  other source \<^verbatim>\<open>setData\<close> is not a function.
\<close>

definition planes_lookup :: "component \<Rightarrow> error + source_spec option" where
  "planes_lookup s = (case map_m s of None \<Rightarrow> Inr None | Some m \<Rightarrow> getSource ''planes'' m)"

definition publish :: "feature list \<Rightarrow> component \<Rightarrow> error + component" where
  "publish planes s =
     (case planes_lookup s of
        Inl e \<Rightarrow> Inl e
      | Inr None \<Rightarrow> Inr s
      | Inr (Some (GeoJSONSource old)) \<Rightarrow>
          Inr (s\<lparr>map_m := map_option (setData ''planes'' (FeatureCollection planes)) (map_m s)\<rparr>)
      | Inr (Some (VectorSource u)) \<Rightarrow> Inl (TypeError ''setData''))"

text \<open>
  The body of the \<^verbatim>\<open>try\<close> block once the request has settled, with the rejection or the
  response it settled with; then the whole of \<^verbatim>\<open>fetchPlanes\<close> after its \<^verbatim>\<open>await\<close>, where the
  \<^verbatim>\<open>catch\<close> logs whatever was thrown.
\<close>

definition fetchPlanes_try :: "error + jsval \<Rightarrow> component \<Rightarrow> error + component" where
  "fetchPlanes_try outcome s =
     (case outcome of
        Inl e \<Rightarrow> Inl e
      | Inr response \<Rightarrow>
          (case planes_of_response response of
             Inl e \<Rightarrow> Inl e
           | Inr planes \<Rightarrow> publish planes s))"

definition fetchPlanes :: "error + jsval \<Rightarrow> component \<Rightarrow> component" where
  "fetchPlanes outcome s =
     (case fetchPlanes_try outcome s of
        Inl e \<Rightarrow> s\<lparr>console := console s @ [e]\<rparr>
      | Inr s' \<Rightarrow> s')"

subsection \<open>The refresh loop and teardown\<close>

text \<open>
  What the component imports and this repository's sources do not hold: the bundled
  airport records (\<^verbatim>\<open>airports.json\<close>, after \<^verbatim>\<open>Object.values\<close>) and the country table
  (\<^verbatim>\<open>data/countries\<close>). They are parameters of the model.
\<close>

record airport =
  name :: jsval
  iata :: jsval
  icao :: jsval
  lon :: rat
  lat :: rat

record country =
  alpha3 :: string

record deps =
  airportData :: "airport list"
  countries :: "country list"

text \<open>
  \<^verbatim>\<open>startFetchingPlanes\<close> runs to its first \<^verbatim>\<open>await\<close>: it sets the flag, tests it, and
  calls \<^verbatim>\<open>fetchPlanes\<close>, which issues the request and waits. \<open>while_head\<close> is the test of
  the \<^verbatim>\<open>while\<close> loop, taken again after each delay.
\<close>

definition while_head :: "component \<Rightarrow> component" where
  "while_head s = (if isFetching s then s\<lparr>loop := AwaitFetch\<rparr> else s\<lparr>loop := Finished\<rparr>)"

definition startFetchingPlanes :: "component \<Rightarrow> component" where
  "startFetchingPlanes s = while_head (s\<lparr>isFetching := True\<rparr>)"

text \<open>
  The loop body from the settled request on: the rest of \<^verbatim>\<open>fetchPlanes\<close>, then
  \<^verbatim>\<open>await this.delay(1000)\<close>.
\<close>

definition loop_body :: "error + jsval \<Rightarrow> component \<Rightarrow> component" where
  "loop_body outcome s = (fetchPlanes outcome s)\<lparr>loop := AwaitDelay 1000\<rparr>"

definition ngOnDestroy :: "component \<Rightarrow> component" where
  "ngOnDestroy s =
     (case map_m s of
        Some m \<Rightarrow> s\<lparr>map_m := Some (remove m)\<rparr>
      | None \<Rightarrow> s)\<lparr>isFetching := False\<rparr>"

subsection \<open>initializeMap\<close>

definition new_map :: mapbox_map where
  "new_map =
     \<lparr>container = ''map'',
      style = ''mapbox://styles/mapbox/light-v11'',
      zoom = 5,
      center = (32840305 / 1000000, 39911652 / 1000000),
      images = [],
      sources = Map.empty,
      layers = [],
      load_pending = False,
      image_requests = [],
      removed = False\<rparr>"

text \<open>\<^verbatim>\<open>this.map?.f(...)\<close>: nothing happens without a map.\<close>

definition with_map :: "(mapbox_map \<Rightarrow> mapbox_map) \<Rightarrow> component \<Rightarrow> component" where
  "with_map f s = s\<lparr>map_m := map_option f (map_m s)\<rparr>"

text \<open>
  The geometry library's constructors: \<^verbatim>\<open>turf.point(position, properties)\<close>,
  \<^verbatim>\<open>turf.lineString(positions)\<close>, and the number arrays written in the source.
\<close>

definition turf_point :: "jsval \<Rightarrow> (string \<times> jsval) list \<Rightarrow> feature" where
  "turf_point position props =
     \<lparr>geometry = \<lparr>geom_type = ''Point'', coordinates = position\<rparr>, properties = props\<rparr>"

definition turf_lineString :: "jsval list \<Rightarrow> feature" where
  "turf_lineString positions =
     \<lparr>geometry = \<lparr>geom_type = ''LineString'', coordinates = JArr positions\<rparr>, properties = []\<rparr>"

definition airport_feature :: "airport \<Rightarrow> feature" where
  "airport_feature a =
     turf_point (JArr [JNum (lon a), JNum (lat a)])
       [(''name'', name a), (''iata'', iata a), (''icao'', icao a)]"

definition antalya :: feature where
  "antalya = turf_point (JArr [JNum (308005 / 10000), JNum (369038 / 10000)]) []"

definition dusseldorf :: feature where
  "dusseldorf = turf_point (JArr [JNum (67668 / 10000), JNum (512895 / 10000)]) []"

definition route :: feature where
  "route = turf_lineString [coordinates (geometry antalya), coordinates (geometry dusseldorf)]"

text \<open>
  The fill colour expression: the array starts as \<^verbatim>\<open>['match', ['get', ...]]\<close>, the loop
  over the selected countries pushes a label and the colour for each, and the
  transparent fallback is pushed last.
\<close>

definition highlighted :: "country \<Rightarrow> bool" where
  "highlighted c =
     (alpha3 c = ''TUR'' \<or> alpha3 c = ''TKM'' \<or> alpha3 c = ''RUS'' \<or> alpha3 c = ''POL'')"

fun push_countries :: "country list \<Rightarrow> jsval list \<Rightarrow> jsval list" where
  "push_countries [] e = e"
| "push_countries (c # cs) e =
     push_countries cs (e @ [JStr (alpha3 c), JStr ''rgba(254,197,11,0.8)''])"

definition matchExpression :: "country list \<Rightarrow> jsval list" where
  "matchExpression cs =
     push_countries (filter highlighted cs)
       [JStr ''match'', JArr [JStr ''get'', JStr ''iso_3166_1_alpha_3'']]
     @ [JStr ''rgba(0, 0, 0, 0)'']"

definition worldview_filter :: jsval where
  "worldview_filter =
     JArr [JStr ''all'',
           JArr [JStr ''=='', JArr [JStr ''get'', JStr ''disputed''], JStr ''false''],
           JArr [JStr ''any'',
                 JArr [JStr ''=='', JArr [JStr ''get'', JStr ''worldview''], JStr ''all''],
                 JArr [JStr ''in'', JStr ''US'', JArr [JStr ''get'', JStr ''worldview'']]]]"

text \<open>The four layers the handler adds, as their object literals.\<close>

definition airport_layer :: layer where
  "airport_layer =
     \<lparr>layer_id = ''airport'', layer_type = ''symbol'', layer_source = ''airports'',
      source_layer = None,
      layout = [(''icon-image'', JStr ''airport-icon''), (''icon-size'', JNum (1 / 10))],
      paint = [], layer_filter = None\<rparr>"

definition planes_layer :: layer where
  "planes_layer =
     \<lparr>layer_id = ''planes'', layer_type = ''symbol'', layer_source = ''planes'',
      source_layer = None,
      layout = [(''icon-image'', JStr ''plane-icon''), (''icon-size'', JNum (5 / 100)),
                (''icon-allow-overlap'', JBool True),
                (''icon-rotate'', JArr [JStr ''get'', JStr ''heading''])],
      paint = [], layer_filter = None\<rparr>"

definition route_layer :: layer where
  "route_layer =
     \<lparr>layer_id = ''route'', layer_type = ''line'', layer_source = ''route'',
      source_layer = None,
      layout = [],
      paint = [(''line-color'', JStr ''#888''), (''line-width'', JNum 2),
               (''line-dasharray'', JArr [JNum 2, JNum 2])],
      layer_filter = None\<rparr>"

definition countries_layer :: "country list \<Rightarrow> layer" where
  "countries_layer cs =
     \<lparr>layer_id = ''countries-join'', layer_type = ''fill'', layer_source = ''countries'',
      source_layer = Some ''country_boundaries'',
      layout = [],
      paint = [(''fill-color'', JArr (matchExpression cs))],
      layer_filter = Some worldview_filter\<rparr>"

text \<open>
  The handler of the map's \<^verbatim>\<open>load\<close> event, statement by statement. \<^verbatim>\<open>loadImage\<close> only
  files the request: its callback runs when the library has the image or the error, and
  the handler goes on without waiting.
\<close>

definition load_handler :: "deps \<Rightarrow> component \<Rightarrow> component" where
  "load_handler d s0 =
     (let s1 = with_map (loadImage ''../../assets/img/airport.png'' ''airport-icon'') s0;
          features = map airport_feature (airportData d);
          s2 = with_map (addSource ''airports'' (GeoJSONSource (FeatureCollection features))) s1;
          s3 = with_map (addLayer airport_layer None) s2;
          s4 = with_map (loadImage ''../../assets/img/plane.png'' ''plane-icon'') s3;
          s5 = with_map (addSource ''planes'' (GeoJSONSource (FeatureCollection []))) s4;
          s6 = with_map (addLayer planes_layer None) s5;
          s7 = with_map (addSource ''route'' (GeoJSONSource (Feature route))) s6;
          s8 = with_map (addLayer route_layer None) s7;
          s9 = with_map (addSource ''countries''
                 (VectorSource ''mapbox://mapbox.country-boundaries-v1'')) s8
      in with_map (addLayer (countries_layer (countries d)) (Some ''admin-1-boundary-bg'')) s9)"

text \<open>
  \<^verbatim>\<open>initializeMap\<close> constructs the map and registers the handler (the access token it
  sets first is the library's global); \<^verbatim>\<open>ngOnInit\<close> then starts the refresher.
\<close>

definition initializeMap :: "component \<Rightarrow> component" where
  "initializeMap s = s\<lparr>map_m := Some (new_map\<lparr>load_pending := True\<rparr>)\<rparr>"

definition ngOnInit :: "component \<Rightarrow> component" where
  "ngOnInit s = startFetchingPlanes (initializeMap s)"

text \<open>
  The callback of either image load,
  \<^verbatim>\<open>(error, image) => { if (error) throw error; if (this.map && image) this.map.addImage(icon, image); }\<close>.
\<close>

definition image_callback ::
  "string \<Rightarrow> error option \<Rightarrow> image option \<Rightarrow> component \<Rightarrow> error + component" where
  "image_callback icon err img s =
     (case err of
        Some e \<Rightarrow> Inl e
      | None \<Rightarrow>
          (case (map_m s, img) of
             (Some m, Some i) \<Rightarrow> Inr (s\<lparr>map_m := Some (addImage icon i m)\<rparr>)
           | _ \<Rightarrow> Inr s))"

subsection \<open>What happens to a component\<close>

text \<open>
  The component runs on an event loop. Each event runs one piece of its code to the next
  suspension: the two lifecycle hooks, the map's \<^verbatim>\<open>load\<close> event, the answer to a requested
  image (the URL, and the error and image handed to the callback), the settling of the
  HTTP request, and the timer of \<^verbatim>\<open>delay\<close>. An event nothing waits for changes nothing;
  \<^verbatim>\<open>ngOnInit\<close> runs once, on the fresh component, and a removed map, which renders no
  more, fires no \<^verbatim>\<open>load\<close>. An exception that leaves a callback is recorded as uncaught.
\<close>

datatype event =
    NgOnInit
  | MapLoad
  | ImageLoaded string "error option" "image option"
  | HttpSettled "error + jsval"
  | TimerFired
  | NgOnDestroy

definition on_image :: "string \<Rightarrow> error option \<Rightarrow> image option \<Rightarrow> component \<Rightarrow> component" where
  "on_image url err img s =
     (case map_m s of
        None \<Rightarrow> s
      | Some m \<Rightarrow>
          (case map_of (image_requests m) url of
             None \<Rightarrow> s
           | Some icon \<Rightarrow>
               (let s' = s\<lparr>map_m := Some (m\<lparr>image_requests := remove1 (url, icon) (image_requests m)\<rparr>)\<rparr>
                in case image_callback icon err img s' of
                     Inl e \<Rightarrow> s'\<lparr>uncaught := uncaught s' @ [e]\<rparr>
                   | Inr s'' \<Rightarrow> s'')))"

definition on_load :: "deps \<Rightarrow> component \<Rightarrow> component" where
  "on_load d s =
     (case map_m s of
        None \<Rightarrow> s
      | Some m \<Rightarrow>
          if load_pending m \<and> \<not> removed m
          then load_handler d (s\<lparr>map_m := Some (m\<lparr>load_pending := False\<rparr>)\<rparr>)
          else s)"

fun step :: "deps \<Rightarrow> event \<Rightarrow> component \<Rightarrow> component" where
  "step d NgOnInit s = (if loop s = NotStarted then ngOnInit s else s)"
| "step d MapLoad s = on_load d s"
| "step d (ImageLoaded url err img) s = on_image url err img s"
| "step d (HttpSettled outcome) s = (if loop s = AwaitFetch then loop_body outcome s else s)"
| "step d TimerFired s = (case loop s of AwaitDelay ms \<Rightarrow> while_head s | _ \<Rightarrow> s)"
| "step d NgOnDestroy s = ngOnDestroy s"

fun run :: "deps \<Rightarrow> event list \<Rightarrow> component \<Rightarrow> component" where
  "run d [] s = s"
| "run d (ev # evs) s = run d evs (step d ev s)"

definition initial :: component where
  "initial = \<lparr>map_m = None, isFetching = False, loop = NotStarted, console = [], uncaught = []\<rparr>"

definition cycles :: "(error + jsval) list \<Rightarrow> event list" where
  "cycles outcomes = concat (map (\<lambda>r. [HttpSettled r, TimerFired]) outcomes)"

section \<open>The fill colour of a country\<close>

text \<open>
  The map library, not the component, evaluates the fill colour expression for each
  polygon. This is the \<^verbatim>\<open>match\<close> expression of the style specification, for the form
  the component builds, \<^verbatim>\<open>['match', ['get', key], label, output, ..., fallback]\<close>: the
  input is the polygon's property (\<^verbatim>\<open>null\<close> when it has none), the output of the branch
  whose label equals the input is the result, and the fallback when there is none. An
  expression the library rejects (\<open>match_valid\<close>) gives the layer no fill colour.
\<close>

fun match_branches :: "jsval list \<Rightarrow> jsval \<Rightarrow> jsval option" where
  "match_branches [] v = None"
| "match_branches [fallback] v = Some fallback"
| "match_branches (label # output # rest) v =
     (if label = v then Some output else match_branches rest v)"

definition eval_match :: "jsval list \<Rightarrow> (string \<times> jsval) list \<Rightarrow> jsval option" where
  "eval_match e props =
     (case e of
        operator # input # branches \<Rightarrow>
          (case input of
             JArr [JStr g, JStr key] \<Rightarrow>
               if operator = JStr ''match'' \<and> g = ''get'' \<and> match_valid branches
               then match_branches branches
                      (case map_of props key of Some v \<Rightarrow> v | None \<Rightarrow> JNull)
               else None
           | _ \<Rightarrow> None)
      | _ \<Rightarrow> None)"

definition fill_color :: "country list \<Rightarrow> string \<Rightarrow> jsval option" where
  "fill_color cs code = eval_match (matchExpression cs) [(''iso_3166_1_alpha_3'', JStr code)]"

section \<open>The properties of the specification\<close>

text \<open>
  The specification speaks of the records of the fetched collection and of their fields.
  A record is any entry but \<^verbatim>\<open>null\<close> and \<^verbatim>\<open>undefined\<close>; its field is the value stored
  under the name, \<^verbatim>\<open>undefined\<close> when there is none. \<open>spec_included\<close>, \<open>spec_heading\<close> and
  \<open>spec_point\<close> say in the specification's words which records are published, with which
  heading, and as which point.
\<close>

definition is_record :: "jsval \<Rightarrow> bool" where
  "is_record p = (p \<noteq> JNull \<and> p \<noteq> JUndefined)"

definition field :: "jsval \<Rightarrow> string \<Rightarrow> jsval" where
  "field p k =
     (case p of
        JObj kvs \<Rightarrow> (case map_of kvs k of Some x \<Rightarrow> x | None \<Rightarrow> JUndefined)
      | _ \<Rightarrow> JUndefined)"

definition spec_included :: "jsval \<Rightarrow> bool" where
  "spec_included p =
     (field p ''lat'' \<noteq> JNum 0 \<and> field p ''lon'' \<noteq> JNum 0 \<and> field p ''flight'' \<noteq> JUndefined)"

definition spec_heading :: "jsval \<Rightarrow> jsval" where
  "spec_heading p = (if truthy (field p ''track'') then field p ''track'' else JNum 0)"

definition spec_point :: "jsval \<Rightarrow> feature" where
  "spec_point p =
     \<lparr>geometry = \<lparr>geom_type = ''Point'', coordinates = JArr [field p ''lon'', field p ''lat'']\<rparr>,
      properties = [(''heading'', spec_heading p), (''flight'', field p ''flight'')]\<rparr>"

text \<open>
  The source registered under a name, as the component can reach it: there is none
  without a map, on a removed map, or when no source has the name. Then the point
  collection the \<^verbatim>\<open>planes\<close> source holds, when there is such a source.
\<close>

definition source_named :: "string \<Rightarrow> component \<Rightarrow> source_spec option" where
  "source_named n s =
     (case map_m s of
        None \<Rightarrow> None
      | Some m \<Rightarrow> (case getSource n m of Inl e \<Rightarrow> None | Inr r \<Rightarrow> r))"

definition planes_source :: "component \<Rightarrow> source_spec option" where
  "planes_source s = source_named ''planes'' s"

definition published_planes :: "component \<Rightarrow> feature list option" where
  "published_planes s =
     (case planes_source s of
        Some (GeoJSONSource (FeatureCollection fs)) \<Rightarrow> Some fs
      | _ \<Rightarrow> None)"

definition route_source :: "component \<Rightarrow> source_spec option" where
  "route_source s = source_named ''route'' s"

text \<open>
  What is registered on the component's map: a property of the map when there is one,
  its layers and their ids, the names of its images, and the image loads still pending.
\<close>

definition map_has :: "(mapbox_map \<Rightarrow> bool) \<Rightarrow> component \<Rightarrow> bool" where
  "map_has P s = (case map_m s of None \<Rightarrow> False | Some m \<Rightarrow> P m)"

definition layers_of :: "component \<Rightarrow> (layer \<times> string option) list" where
  "layers_of s = (case map_m s of None \<Rightarrow> [] | Some m \<Rightarrow> layers m)"

definition layer_ids :: "component \<Rightarrow> string list" where
  "layer_ids s = (case map_m s of None \<Rightarrow> [] | Some m \<Rightarrow> map (\<lambda>l. layer_id (fst l)) (layers m))"

definition image_names :: "component \<Rightarrow> string list" where
  "image_names s = (case map_m s of None \<Rightarrow> [] | Some m \<Rightarrow> map fst (images m))"

definition pending_images :: "component \<Rightarrow> (string \<times> string) list" where
  "pending_images s = (case map_m s of None \<Rightarrow> [] | Some m \<Rightarrow> image_requests m)"

text \<open>
  The map waits for its \<^verbatim>\<open>load\<close> event; setup has run and the route source holds the
  route.
\<close>

definition load_waiting :: "mapbox_map \<Rightarrow> bool" where
  "load_waiting m = (load_pending m \<and> \<not> removed m)"

definition route_set :: "mapbox_map \<Rightarrow> bool" where
  "route_set m =
     (\<not> load_pending m \<and> \<not> removed m
      \<and> sources m ''route'' = Some (GeoJSONSource (Feature route)))"

subsection \<open>Sample data\<close>

text \<open>
  A component whose \<^verbatim>\<open>planes\<close> source holds one point of an earlier cycle, a response
  of five records of which two pass the filter, and values for the imports.
\<close>

definition demo_old :: jsval where
  "demo_old = JObj [(''lat'', JNum 1), (''lon'', JNum 2), (''flight'', JStr ''OLD1'')]"

definition demo_map :: mapbox_map where
  "demo_map =
     new_map\<lparr>sources := [''planes'' \<mapsto> GeoJSONSource (FeatureCollection [spec_point demo_old])]\<rparr>"

definition demo_state :: component where
  "demo_state =
     \<lparr>map_m = Some demo_map, isFetching = True, loop = AwaitFetch, console = [], uncaught = []\<rparr>"

definition demo_thy1 :: jsval where
  "demo_thy1 =
     JObj [(''lat'', JNum 41), (''lon'', JNum 29), (''flight'', JStr ''THY1''), (''track'', JNum 90)]"

definition demo_thy2 :: jsval where
  "demo_thy2 = JObj [(''lat'', JNum 0), (''lon'', JNum 29), (''flight'', JStr ''THY2'')]"

definition demo_thy3 :: jsval where
  "demo_thy3 = JObj [(''lat'', JNum 40), (''lon'', JNum 0), (''flight'', JStr ''THY3'')]"

definition demo_thy4 :: jsval where
  "demo_thy4 = JObj [(''lat'', JNum 39), (''lon'', JNum 32)]"

definition demo_thy5 :: jsval where
  "demo_thy5 = JObj [(''lat'', JNum 38), (''lon'', JNum 27), (''flight'', JStr ''THY5'')]"

definition demo_records :: "jsval list" where
  "demo_records = [demo_thy1, demo_thy2, demo_thy3, demo_thy4, demo_thy5]"

definition demo_response :: jsval where
  "demo_response = JObj [(''ac'', JArr demo_records)]"

definition demo_countries :: "country list" where
  "demo_countries =
     [\<lparr>alpha3 = ''DEU''\<rparr>, \<lparr>alpha3 = ''POL''\<rparr>, \<lparr>alpha3 = ''RUS''\<rparr>,
      \<lparr>alpha3 = ''TKM''\<rparr>, \<lparr>alpha3 = ''TUR''\<rparr>]"

definition demo_missing :: jsval where
  "demo_missing = JObj [(''msg'', JStr ''busy'')]"

definition demo_deps :: deps where
  "demo_deps =
     \<lparr>airportData =
        [\<lparr>name = JStr ''Antalya'', iata = JStr ''AYT'', icao = JStr ''LTAI'',
          lon = 308005 / 10000, lat = 369038 / 10000\<rparr>],
      countries = demo_countries\<rparr>"

text \<open>
  A component with the plane icon still loading; the component started, then loaded,
  then torn down while its first request is in flight; and the run in which the airport
  icon fails to load after setup.
\<close>

definition demo_pending_map :: mapbox_map where
  "demo_pending_map = new_map\<lparr>image_requests := [(''../../assets/img/plane.png'', ''plane-icon'')]\<rparr>"

definition demo_pending :: component where
  "demo_pending =
     \<lparr>map_m = Some demo_pending_map, isFetching = True, loop = AwaitFetch, console = [], uncaught = []\<rparr>"

definition demo_started :: component where
  "demo_started = step demo_deps NgOnInit initial"

definition demo_loaded :: component where
  "demo_loaded = step demo_deps MapLoad demo_started"

definition demo_torn_down :: component where
  "demo_torn_down = run demo_deps [NgOnInit, MapLoad, NgOnDestroy] initial"

definition demo_failed_icon :: component where
  "demo_failed_icon =
     run demo_deps
       [NgOnInit, MapLoad,
        ImageLoaded ''../../assets/img/airport.png'' (Some (ImageError ''404'')) None]
       initial"

section \<open>Processing a response\<close>

lemma getProp_field: "is_record p \<Longrightarrow> getProp p k = Inr (field p k)"
  by (cases p) (simp_all add: getProp_def field_def is_record_def)

lemma getProp_not_record: "\<not> is_record p \<Longrightarrow> getProp p k = Inl (TypeError k)"
  by (cases p) (simp_all add: getProp_def is_record_def)

lemma plane_filter_record: "is_record p \<Longrightarrow> plane_filter p = Inr (spec_included p)"
  by (simp add: plane_filter_def getProp_field spec_included_def)

lemma plane_filter_not_record: "\<not> is_record p \<Longrightarrow> plane_filter p = Inl (TypeError ''lat'')"
  by (simp add: plane_filter_def getProp_not_record)

lemma plane_feature_record: "is_record p \<Longrightarrow> plane_feature p = Inr (spec_point p)"
  by (simp add: plane_feature_def getProp_field spec_point_def spec_heading_def js_or_def)

lemma filter_arr_total:
  "\<forall>x\<in>set xs. p x = Inr (q x) \<Longrightarrow> filter_arr p xs = Inr (filter q xs)"
  by (induction xs) simp_all

lemma map_arr_total:
  "\<forall>x\<in>set xs. f x = Inr (g x) \<Longrightarrow> map_arr f xs = Inr (map g xs)"
  by (induction xs) simp_all

lemma filter_arr_throws:
  "x \<in> set xs \<Longrightarrow> \<forall>y\<in>set xs. p y = Inl e \<or> (\<exists>b. p y = Inr b) \<Longrightarrow> p x = Inl e \<Longrightarrow> filter_arr p xs = Inl e"
proof (induction xs)
  case Nil
  then show ?case by simp
next
  case (Cons a xs)
  show ?case
  proof (cases "p a")
    case (Inl e')
    with Cons.prems show ?thesis by auto
  next
    case (Inr b)
    with Cons.prems have "x \<in> set xs" by auto
    with Cons have "filter_arr p xs = Inl e" by auto
    with Inr show ?thesis by simp
  qed
qed

lemma planes_of_response_records:
  assumes "getProp response ''ac'' = Inr (JArr xs)" and "\<forall>x\<in>set xs. is_record x"
  shows "planes_of_response response = Inr (map spec_point (filter spec_included xs))"
proof -
  have f: "filter_arr plane_filter xs = Inr (filter spec_included xs)"
    using assms(2) by (intro filter_arr_total) (simp add: plane_filter_record)
  have m: "map_arr plane_feature (filter spec_included xs) = Inr (map spec_point (filter spec_included xs))"
    using assms(2) by (intro map_arr_total) (simp add: plane_feature_record)
  show ?thesis by (simp add: planes_of_response_def assms(1) f m)
qed

lemma planes_of_response_not_record:
  assumes "getProp response ''ac'' = Inr (JArr xs)" and "x \<in> set xs" and "\<not> is_record x"
  shows "planes_of_response response = Inl (TypeError ''lat'')"
proof -
  have "\<forall>y\<in>set xs. plane_filter y = Inl (TypeError ''lat'') \<or> (\<exists>b. plane_filter y = Inr b)"
    using plane_filter_record plane_filter_not_record by blast
  then have "filter_arr plane_filter xs = Inl (TypeError ''lat'')"
    using assms(2,3) by (intro filter_arr_throws[of x]) (simp_all add: plane_filter_not_record)
  then show ?thesis by (simp add: planes_of_response_def assms(1))
qed

lemma planes_source_lookup:
  "planes_source s = Some src \<Longrightarrow> planes_lookup s = Inr (Some src)"
  by (auto simp: planes_source_def source_named_def planes_lookup_def
      split: option.splits sum.splits)

lemma planes_lookup_source:
  "planes_lookup s = Inr r \<Longrightarrow> planes_source s = r"
  by (auto simp: planes_source_def source_named_def planes_lookup_def split: option.splits)

lemma planes_lookup_live:
  "planes_lookup s = Inr (Some src) \<Longrightarrow> \<exists>m. map_m s = Some m \<and> \<not> removed m"
  by (auto simp: planes_lookup_def getSource_def split: option.splits if_splits)

lemma fetchPlanes_publishes:
  assumes "planes_source s = Some (GeoJSONSource old)" and "planes_of_response response = Inr fs"
  shows "planes_source (fetchPlanes (Inr response) s) = Some (GeoJSONSource (FeatureCollection fs))"
proof -
  have l: "planes_lookup s = Inr (Some (GeoJSONSource old))"
    using assms(1) by (rule planes_source_lookup)
  then obtain m where m: "map_m s = Some m" and r: "\<not> removed m"
    using planes_lookup_live by blast
  have "fetchPlanes (Inr response) s
          = s\<lparr>map_m := Some (setData ''planes'' (FeatureCollection fs) m)\<rparr>"
    by (simp add: fetchPlanes_def fetchPlanes_try_def assms(2) publish_def l m)
  then show ?thesis
    by (simp add: planes_source_def source_named_def getSource_def setData_def r)
qed

lemma spec_point_inj:
  "spec_point p = spec_point q \<Longrightarrow> spec_included p = spec_included q"
  by (simp add: spec_point_def spec_included_def)

lemma demo_source: "planes_source demo_state = Some (GeoJSONSource (FeatureCollection [spec_point demo_old]))"
  by (simp add: planes_source_def source_named_def demo_state_def demo_map_def getSource_def
      new_map_def)

lemma demo_ac: "getProp demo_response ''ac'' = Inr (JArr demo_records)"
  by (simp add: getProp_def demo_response_def)

lemma demo_records_ok: "\<forall>x\<in>set demo_records. is_record x"
  by (simp add: demo_records_def is_record_def demo_thy1_def demo_thy2_def demo_thy3_def demo_thy4_def demo_thy5_def)

lemma demo_passing: "filter spec_included demo_records = [demo_thy1, demo_thy5]"
  by (simp add: demo_records_def spec_included_def field_def demo_thy1_def demo_thy2_def demo_thy3_def demo_thy4_def demo_thy5_def)

section \<open>The published point collection\<close>

text \<open>
  Claim C2. When a cycle publishes the records \<open>xs\<close> of a response, a record whose
  latitude is 0, whose longitude is 0 or whose flight identifier is undefined has no point
  in the published collection, and every record with a non-zero latitude, a non-zero
  longitude and a defined flight identifier has its point there; the collection has as
  many points as there are such records.
\<close>

theorem excluded_records:
  assumes "planes_source s = Some (GeoJSONSource old)"
    and "getProp response ''ac'' = Inr (JArr xs)"
    and "\<forall>x\<in>set xs. is_record x"
  shows "\<exists>fs. published_planes (fetchPlanes (Inr response) s) = Some fs
            \<and> length fs = length (filter spec_included xs)
            \<and> (\<forall>p\<in>set xs.
                  (field p ''lat'' = JNum 0 \<or> field p ''lon'' = JNum 0 \<or> field p ''flight'' = JUndefined
                     \<longrightarrow> spec_point p \<notin> set fs)
                \<and> (field p ''lat'' \<noteq> JNum 0 \<and> field p ''lon'' \<noteq> JNum 0 \<and> field p ''flight'' \<noteq> JUndefined
                     \<longrightarrow> spec_point p \<in> set fs))"
proof -
  let ?fs = "map spec_point (filter spec_included xs)"
  have r: "planes_of_response response = Inr ?fs"
    using assms(2,3) by (rule planes_of_response_records)
  have "planes_source (fetchPlanes (Inr response) s) = Some (GeoJSONSource (FeatureCollection ?fs))"
    using assms(1) r by (rule fetchPlanes_publishes)
  then have p: "published_planes (fetchPlanes (Inr response) s) = Some ?fs"
    by (simp add: published_planes_def)
  have out: "spec_point p \<notin> set ?fs" if "\<not> spec_included p" for p
  proof
    assume "spec_point p \<in> set ?fs"
    then obtain q where "spec_included q" and "spec_point p = spec_point q" by auto
    with spec_point_inj that show False by blast
  qed
  have inn: "spec_point p \<in> set ?fs" if "p \<in> set xs" and "spec_included p" for p
    using that by simp
  show ?thesis
    using p out inn by (intro exI[of _ ?fs]) (auto simp: spec_included_def)
qed

theorem excluded_records_witness:
  "\<exists>fs. published_planes (fetchPlanes (Inr demo_response) demo_state) = Some fs
      \<and> length fs = 2
      \<and> spec_point demo_thy2 \<notin> set fs \<and> spec_point demo_thy3 \<notin> set fs
      \<and> spec_point demo_thy4 \<notin> set fs \<and> spec_point demo_thy5 \<in> set fs"
proof -
  from excluded_records [OF demo_source demo_ac demo_records_ok]
  obtain fs where a: "published_planes (fetchPlanes (Inr demo_response) demo_state) = Some fs"
    and b: "length fs = length (filter spec_included demo_records)"
    and c: "\<forall>p\<in>set demo_records.
                  (field p ''lat'' = JNum 0 \<or> field p ''lon'' = JNum 0 \<or> field p ''flight'' = JUndefined
                     \<longrightarrow> spec_point p \<notin> set fs)
                \<and> (field p ''lat'' \<noteq> JNum 0 \<and> field p ''lon'' \<noteq> JNum 0 \<and> field p ''flight'' \<noteq> JUndefined
                     \<longrightarrow> spec_point p \<in> set fs)"
    by blast
  have "spec_point demo_thy2 \<notin> set fs"
    using c by (simp add: demo_records_def field_def demo_thy2_def)
  moreover have "spec_point demo_thy3 \<notin> set fs"
    using c by (simp add: demo_records_def field_def demo_thy3_def)
  moreover have "spec_point demo_thy4 \<notin> set fs"
    using c by (simp add: demo_records_def field_def demo_thy4_def)
  moreover have "spec_point demo_thy5 \<in> set fs"
    using c by (simp add: demo_records_def field_def demo_thy5_def)
  ultimately show ?thesis using a b unfolding demo_passing by (intro exI[of _ fs]) simp
qed

text \<open>
  Claim C3. The headings of the published points are, record by record, those of the
  records that pass the filter: the record's \<^verbatim>\<open>track\<close> value when it is truthy, and 0 when it
  is absent or falsy.
\<close>

theorem published_heading:
  assumes "planes_source s = Some (GeoJSONSource old)"
    and "getProp response ''ac'' = Inr (JArr xs)"
    and "\<forall>x\<in>set xs. is_record x"
  shows "\<exists>fs. published_planes (fetchPlanes (Inr response) s) = Some fs
            \<and> map (\<lambda>f. map_of (properties f) ''heading'') fs
                = map (\<lambda>p. Some (if truthy (field p ''track'') then field p ''track'' else JNum 0))
                    (filter spec_included xs)"
proof -
  let ?fs = "map spec_point (filter spec_included xs)"
  have r: "planes_of_response response = Inr ?fs"
    using assms(2,3) by (rule planes_of_response_records)
  have "planes_source (fetchPlanes (Inr response) s) = Some (GeoJSONSource (FeatureCollection ?fs))"
    using assms(1) r by (rule fetchPlanes_publishes)
  then have p: "published_planes (fetchPlanes (Inr response) s) = Some ?fs"
    by (simp add: published_planes_def)
  have "map (\<lambda>f. map_of (properties f) ''heading'') ?fs
          = map (\<lambda>p. Some (if truthy (field p ''track'') then field p ''track'' else JNum 0))
              (filter spec_included xs)"
    by (simp add: spec_point_def spec_heading_def)
  with p show ?thesis by blast
qed

theorem published_heading_witness:
  "\<exists>fs. published_planes (fetchPlanes (Inr demo_response) demo_state) = Some fs
      \<and> map (\<lambda>f. map_of (properties f) ''heading'') fs = [Some (JNum 90), Some (JNum 0)]"
proof -
  from published_heading [OF demo_source demo_ac demo_records_ok]
  obtain fs where a: "published_planes (fetchPlanes (Inr demo_response) demo_state) = Some fs"
    and b: "map (\<lambda>f. map_of (properties f) ''heading'') fs
                = map (\<lambda>p. Some (if truthy (field p ''track'') then field p ''track'' else JNum 0))
                    (filter spec_included demo_records)"
    by blast
  have "map (\<lambda>f. map_of (properties f) ''heading'') fs = [Some (JNum 90), Some (JNum 0)]"
    unfolding b demo_passing by (simp add: field_def demo_thy1_def demo_thy5_def)
  with a show ?thesis by (intro exI[of _ fs]) simp
qed

text \<open>
  Claim C10. What a cycle stores in the \<^verbatim>\<open>planes\<close> source is a feature collection; taken
  in order, its features are the passing records in the order of the response, each a
  \<^verbatim>\<open>Point\<close> with the coordinates \<^verbatim>\<open>[lon, lat]\<close> and with exactly the properties
  \<^verbatim>\<open>heading\<close> and \<^verbatim>\<open>flight\<close>, the latter the record's flight identifier.
\<close>

theorem published_point_shape:
  assumes "planes_source s = Some (GeoJSONSource old)"
    and "getProp response ''ac'' = Inr (JArr xs)"
    and "\<forall>x\<in>set xs. is_record x"
  shows "\<exists>fs. planes_source (fetchPlanes (Inr response) s) = Some (GeoJSONSource (FeatureCollection fs))
            \<and> map (\<lambda>f. (geom_type (geometry f), coordinates (geometry f),
                         map fst (properties f), map_of (properties f) ''flight'')) fs
                = map (\<lambda>p. (''Point'', JArr [field p ''lon'', field p ''lat''],
                         [''heading'', ''flight''], Some (field p ''flight'')))
                    (filter spec_included xs)"
proof -
  let ?fs = "map spec_point (filter spec_included xs)"
  have r: "planes_of_response response = Inr ?fs"
    using assms(2,3) by (rule planes_of_response_records)
  have p: "planes_source (fetchPlanes (Inr response) s) = Some (GeoJSONSource (FeatureCollection ?fs))"
    using assms(1) r by (rule fetchPlanes_publishes)
  have "map (\<lambda>f. (geom_type (geometry f), coordinates (geometry f),
                         map fst (properties f), map_of (properties f) ''flight'')) ?fs
                = map (\<lambda>p. (''Point'', JArr [field p ''lon'', field p ''lat''],
                         [''heading'', ''flight''], Some (field p ''flight'')))
                    (filter spec_included xs)"
    by (simp add: spec_point_def)
  with p show ?thesis by blast
qed

theorem published_point_shape_witness:
  "\<exists>fs. planes_source (fetchPlanes (Inr demo_response) demo_state) = Some (GeoJSONSource (FeatureCollection fs))
      \<and> map (\<lambda>f. (geom_type (geometry f), coordinates (geometry f),
                   map fst (properties f), map_of (properties f) ''flight'')) fs
          = [(''Point'', JArr [JNum 29, JNum 41], [''heading'', ''flight''], Some (JStr ''THY1'')),
             (''Point'', JArr [JNum 27, JNum 38], [''heading'', ''flight''], Some (JStr ''THY5''))]"
proof -
  from published_point_shape [OF demo_source demo_ac demo_records_ok]
  obtain fs where a: "planes_source (fetchPlanes (Inr demo_response) demo_state) = Some (GeoJSONSource (FeatureCollection fs))"
    and b: "map (\<lambda>f. (geom_type (geometry f), coordinates (geometry f),
                         map fst (properties f), map_of (properties f) ''flight'')) fs
                = map (\<lambda>p. (''Point'', JArr [field p ''lon'', field p ''lat''],
                         [''heading'', ''flight''], Some (field p ''flight'')))
                    (filter spec_included demo_records)"
    by blast
  have "map (\<lambda>f. (geom_type (geometry f), coordinates (geometry f),
                   map fst (properties f), map_of (properties f) ''flight'')) fs
          = [(''Point'', JArr [JNum 29, JNum 41], [''heading'', ''flight''], Some (JStr ''THY1'')),
             (''Point'', JArr [JNum 27, JNum 38], [''heading'', ''flight''], Some (JStr ''THY5''))]"
    unfolding b demo_passing by (simp add: field_def demo_thy1_def demo_thy5_def)
  with a show ?thesis by (intro exI[of _ fs]) simp
qed

lemma fetchPlanes_try_rejected: "fetchPlanes_try (Inl e) s = Inl e"
  by (simp add: fetchPlanes_try_def)

lemma planes_of_response_no_array:
  assumes "getProp response ''ac'' = Inr v" and "\<forall>xs. v \<noteq> JArr xs"
  shows "planes_of_response response = Inl (TypeError ''filter'')"
  using assms by (cases v) (simp_all add: planes_of_response_def)

lemma planes_of_response_null:
  assumes "\<not> is_record response"
  shows "planes_of_response response = Inl (TypeError ''ac'')"
  using assms by (simp add: planes_of_response_def getProp_not_record)

lemma planes_of_response_Inr:
  assumes "planes_of_response response = Inr fs"
  shows "\<exists>xs. getProp response ''ac'' = Inr (JArr xs) \<and> fs = map spec_point (filter spec_included xs)"
proof (cases "getProp response ''ac''")
  case (Inl e)
  with assms show ?thesis by (simp add: planes_of_response_def)
next
  case (Inr v)
  show ?thesis
  proof (cases "\<exists>xs. v = JArr xs")
    case False
    with Inr assms show ?thesis by (simp add: planes_of_response_no_array)
  next
    case True
    then obtain xs where v: "v = JArr xs" by blast
    show ?thesis
    proof (cases "\<forall>x\<in>set xs. is_record x")
      case True
      with Inr v assms show ?thesis by (simp add: planes_of_response_records)
    next
      case False
      then obtain x where "x \<in> set xs" and "\<not> is_record x" by blast
      with Inr v have "planes_of_response response = Inl (TypeError ''lat'')"
        by (intro planes_of_response_not_record[of _ xs x]) simp_all
      with assms show ?thesis by simp
    qed
  qed
qed

lemma fetchPlanes_failed:
  "fetchPlanes_try outcome s = Inl e \<Longrightarrow> fetchPlanes outcome s = s\<lparr>console := console s @ [e]\<rparr>"
  by (simp add: fetchPlanes_def)

lemma fetchPlanes_try_Inr:
  assumes "fetchPlanes_try outcome s = Inr s'"
  shows "\<exists>response fs. outcome = Inr response \<and> planes_of_response response = Inr fs
           \<and> publish fs s = Inr s' \<and> fetchPlanes outcome s = s'"
  using assms by (auto simp: fetchPlanes_try_def fetchPlanes_def split: sum.splits)

lemma publish_no_source: "planes_lookup s = Inr None \<Longrightarrow> publish fs s = Inr s"
  by (simp add: publish_def)

lemma publish_throws: "planes_lookup s = Inl e \<Longrightarrow> publish fs s = Inl e"
  by (simp add: publish_def)

lemma demo_response_ok: "planes_of_response demo_response = Inr (map spec_point [demo_thy1, demo_thy5])"
  using planes_of_response_records [OF demo_ac demo_records_ok] by (simp add: demo_passing)

section \<open>Failed cycles and replacement\<close>

text \<open>
  Claim C1. When the request is rejected or processing the response throws, the cycle
  logs the error and changes nothing else: the published point collection is the one
  before, no exception is left uncaught, and the loop goes on to its delay and, the flag
  still set, to the next request.
\<close>

theorem failed_cycle:
  assumes "fetchPlanes_try outcome s = Inl e"
  shows "fetchPlanes outcome s = s\<lparr>console := console s @ [e]\<rparr>
       \<and> published_planes (fetchPlanes outcome s) = published_planes s
       \<and> uncaught (fetchPlanes outcome s) = uncaught s
       \<and> (loop s = AwaitFetch \<longrightarrow>
            step d (HttpSettled outcome) s = s\<lparr>console := console s @ [e], loop := AwaitDelay 1000\<rparr>
          \<and> loop (run d [HttpSettled outcome, TimerFired] s)
              = (if isFetching s then AwaitFetch else Finished))"
proof -
  have f: "fetchPlanes outcome s = s\<lparr>console := console s @ [e]\<rparr>"
    using assms by (rule fetchPlanes_failed)
  have p: "published_planes (fetchPlanes outcome s) = published_planes s"
    by (simp add: f published_planes_def planes_source_def source_named_def)
  have u: "uncaught (fetchPlanes outcome s) = uncaught s"
    by (simp add: f)
  have l: "step d (HttpSettled outcome) s = s\<lparr>console := console s @ [e], loop := AwaitDelay 1000\<rparr>"
    if "loop s = AwaitFetch"
    using that by (simp add: loop_body_def f)
  have n: "loop (run d [HttpSettled outcome, TimerFired] s) = (if isFetching s then AwaitFetch else Finished)"
    if "loop s = AwaitFetch"
    using that by (simp add: loop_body_def f while_head_def)
  show ?thesis using f p u l n by blast
qed

lemma demo_no_ac: "fetchPlanes_try (Inr demo_missing) demo_state = Inl (TypeError ''filter'')"
proof -
  have "getProp demo_missing ''ac'' = Inr JUndefined"
    by (simp add: getProp_def demo_missing_def)
  then have "planes_of_response demo_missing = Inl (TypeError ''filter'')"
    by (rule planes_of_response_no_array) simp
  then show ?thesis by (simp add: fetchPlanes_try_def)
qed

lemma demo_published: "published_planes demo_state = Some [spec_point demo_old]"
  by (simp add: published_planes_def demo_source)

lemma demo_loop: "loop demo_state = AwaitFetch" "isFetching demo_state" "console demo_state = []" "uncaught demo_state = []"
  by (simp_all add: demo_state_def)

theorem failed_cycle_witness:
  "fetchPlanes_try (Inr demo_missing) demo_state = Inl (TypeError ''filter'')
   \<and> published_planes (fetchPlanes (Inr demo_missing) demo_state) = Some [spec_point demo_old]
   \<and> console (fetchPlanes (Inr demo_missing) demo_state) = [TypeError ''filter'']
   \<and> uncaught (fetchPlanes (Inr demo_missing) demo_state) = []
   \<and> loop (run demo_deps [HttpSettled (Inr demo_missing), TimerFired] demo_state) = AwaitFetch"
proof -
  note w = failed_cycle [OF demo_no_ac, of demo_deps]
  from w have "published_planes (fetchPlanes (Inr demo_missing) demo_state)
                 = published_planes demo_state"
    by blast
  then have a: "published_planes (fetchPlanes (Inr demo_missing) demo_state)
                 = Some [spec_point demo_old]"
    by (simp add: demo_published)
  from w have "fetchPlanes (Inr demo_missing) demo_state
                 = demo_state\<lparr>console := console demo_state @ [TypeError ''filter'']\<rparr>"
    by blast
  then have b: "console (fetchPlanes (Inr demo_missing) demo_state) = [TypeError ''filter'']"
    by (simp add: demo_loop)
  from w have "uncaught (fetchPlanes (Inr demo_missing) demo_state) = uncaught demo_state"
    by blast
  then have c: "uncaught (fetchPlanes (Inr demo_missing) demo_state) = []"
    by (simp add: demo_loop)
  from w demo_loop(1)
  have "loop (run demo_deps [HttpSettled (Inr demo_missing), TimerFired] demo_state)
          = (if isFetching demo_state then AwaitFetch else Finished)"
    by blast
  then have d: "loop (run demo_deps [HttpSettled (Inr demo_missing), TimerFired] demo_state)
          = AwaitFetch"
    by (simp only: demo_loop if_True)
  from demo_no_ac a b c d show ?thesis by blast
qed

text \<open>
  Claim C4. When a cycle succeeds and there is a \<^verbatim>\<open>planes\<close> source, the source afterwards
  holds the collection computed from this cycle's response and nothing of what it held
  before; when no record of the response passes, it holds the empty collection.
\<close>

theorem cycle_replaces:
  assumes "planes_source s = Some src" and "fetchPlanes_try outcome s = Inr s'"
  shows "\<exists>response xs. outcome = Inr response \<and> getProp response ''ac'' = Inr (JArr xs)
           \<and> planes_source (fetchPlanes outcome s)
               = Some (GeoJSONSource (FeatureCollection (map spec_point (filter spec_included xs))))
           \<and> (filter spec_included xs = [] \<longrightarrow> published_planes (fetchPlanes outcome s) = Some [])"
proof -
  from fetchPlanes_try_Inr [OF assms(2)] obtain response fs
    where o: "outcome = Inr response" and r: "planes_of_response response = Inr fs"
      and p: "publish fs s = Inr s'"
    by blast
  from planes_of_response_Inr [OF r] obtain xs
    where ac: "getProp response ''ac'' = Inr (JArr xs)"
      and fs: "fs = map spec_point (filter spec_included xs)"
    by blast
  from planes_source_lookup [OF assms(1)] p obtain old where src: "src = GeoJSONSource old"
    by (cases src) (simp_all add: publish_def)
  have n: "planes_source (fetchPlanes (Inr response) s) = Some (GeoJSONSource (FeatureCollection fs))"
    using assms(1) r unfolding src by (rule fetchPlanes_publishes)
  then have "filter spec_included xs = [] \<longrightarrow> published_planes (fetchPlanes outcome s) = Some []"
    by (simp add: o fs published_planes_def)
  with o ac n fs show ?thesis by blast
qed

lemma demo_none_pass_try:
  "\<exists>s'. fetchPlanes_try (Inr (JObj [(''ac'', JArr [demo_thy2, demo_thy3, demo_thy4])])) demo_state = Inr s'"
proof -
  have "getProp (JObj [(''ac'', JArr [demo_thy2, demo_thy3, demo_thy4])]) ''ac'' = Inr (JArr [demo_thy2, demo_thy3, demo_thy4])"
    by (simp add: getProp_def)
  moreover have "\<forall>x\<in>set [demo_thy2, demo_thy3, demo_thy4]. is_record x"
    by (simp add: is_record_def demo_thy2_def demo_thy3_def demo_thy4_def)
  ultimately have "planes_of_response (JObj [(''ac'', JArr [demo_thy2, demo_thy3, demo_thy4])])
     = Inr (map spec_point (filter spec_included [demo_thy2, demo_thy3, demo_thy4]))"
    by (rule planes_of_response_records)
  then show ?thesis
    by (simp add: fetchPlanes_try_def publish_def planes_source_lookup [OF demo_source])
qed

theorem cycle_replaces_witness:
  "published_planes demo_state = Some [spec_point demo_old]
   \<and> published_planes (fetchPlanes (Inr (JObj [(''ac'', JArr [demo_thy2, demo_thy3, demo_thy4])])) demo_state) = Some []"
proof -
  obtain s' where t: "fetchPlanes_try (Inr (JObj [(''ac'', JArr [demo_thy2, demo_thy3, demo_thy4])])) demo_state = Inr s'"
    using demo_none_pass_try by blast
  from cycle_replaces [OF demo_source t] obtain xs
    where ac: "getProp (JObj [(''ac'', JArr [demo_thy2, demo_thy3, demo_thy4])]) ''ac'' = Inr (JArr xs)"
      and e: "filter spec_included xs = [] \<longrightarrow>
              published_planes (fetchPlanes (Inr (JObj [(''ac'', JArr [demo_thy2, demo_thy3, demo_thy4])])) demo_state) = Some []"
    by blast
  from ac have xs: "xs = [demo_thy2, demo_thy3, demo_thy4]"
    by (simp add: getProp_def)
  have "filter spec_included xs = []"
    unfolding xs by (simp add: spec_included_def field_def demo_thy2_def demo_thy3_def demo_thy4_def)
  with e show ?thesis by (simp add: demo_published)
qed

section \<open>The fill colour expression\<close>

lemma push_countries_append:
  "push_countries cs e = e @ concat (map (\<lambda>c. [JStr (alpha3 c), JStr ''rgba(254,197,11,0.8)'']) cs)"
  by (induction cs arbitrary: e) simp_all

lemma match_labels_branches:
  "match_labels (concat (map (\<lambda>c. [JStr (alpha3 c), out]) cs) @ [fb]) = map (\<lambda>c. JStr (alpha3 c)) cs"
  by (induction cs) simp_all

lemma match_branches_branches:
  "match_branches (concat (map (\<lambda>c. [JStr (alpha3 c), out]) cs) @ [fb]) (JStr code)
     = Some (if code \<in> alpha3 ` set cs then out else fb)"
  by (induction cs) auto

lemma length_branches:
  "length (concat (map (\<lambda>c. [JStr (alpha3 c), out]) cs) @ [fb]) = 2 * length cs + 1"
  by (induction cs) simp_all

lemma distinct_labels:
  "distinct (map (\<lambda>c. JStr (alpha3 c)) cs) = distinct (map alpha3 cs)"
  by (simp add: distinct_map inj_on_def flip: map_map) 

lemma eval_match_form:
  "eval_match (JStr ''match'' # JArr [JStr ''get'', JStr key] # branches) props =
     (if match_valid branches
      then match_branches branches (case map_of props key of Some v \<Rightarrow> v | None \<Rightarrow> JNull)
      else None)"
  by (simp add: eval_match_def)

lemma matchExpression_form:
  "matchExpression cs =
     JStr ''match'' # JArr [JStr ''get'', JStr ''iso_3166_1_alpha_3'']
       # (concat (map (\<lambda>c. [JStr (alpha3 c), JStr ''rgba(254,197,11,0.8)'']) (filter highlighted cs))
          @ [JStr ''rgba(0, 0, 0, 0)''])"
  by (simp add: matchExpression_def push_countries_append)

lemma match_valid_branches:
  "match_valid (concat (map (\<lambda>c. [JStr (alpha3 c), out]) cs) @ [fb])
     = (cs \<noteq> [] \<and> distinct (map alpha3 cs))"
proof -
  have "(3 \<le> length (concat (map (\<lambda>c. [JStr (alpha3 c), out]) cs) @ [fb])) = (cs \<noteq> [])"
    unfolding length_branches by (cases cs) simp_all
  moreover have "odd (length (concat (map (\<lambda>c. [JStr (alpha3 c), out]) cs) @ [fb]))"
    unfolding length_branches by simp
  ultimately show ?thesis
    by (simp add: match_valid_def match_labels_branches distinct_labels)
qed

lemma fill_color_eq:
  "fill_color cs code =
     (if filter highlighted cs \<noteq> [] \<and> distinct (map alpha3 (filter highlighted cs))
      then Some (if code \<in> alpha3 ` set (filter highlighted cs)
                 then JStr ''rgba(254,197,11,0.8)'' else JStr ''rgba(0, 0, 0, 0)'')
      else None)"
proof -
  let ?data = "filter highlighted cs"
  let ?branches = "concat (map (\<lambda>c. [JStr (alpha3 c), JStr ''rgba(254,197,11,0.8)'']) ?data) @ [JStr ''rgba(0, 0, 0, 0)'']"
  have e: "matchExpression cs = JStr ''match'' # JArr [JStr ''get'', JStr ''iso_3166_1_alpha_3''] # ?branches"
    by (rule matchExpression_form)
  have v: "match_valid ?branches = (?data \<noteq> [] \<and> distinct (map alpha3 ?data))"
    by (rule match_valid_branches)
  have b: "match_branches ?branches (JStr code)
             = Some (if code \<in> alpha3 ` set ?data
                     then JStr ''rgba(254,197,11,0.8)'' else JStr ''rgba(0, 0, 0, 0)'')"
    by (rule match_branches_branches)
  have p: "(case map_of [(''iso_3166_1_alpha_3'', JStr code)] ''iso_3166_1_alpha_3'' of
              Some v \<Rightarrow> v | None \<Rightarrow> JNull) = JStr code"
    by simp
  show ?thesis
    unfolding fill_color_def e eval_match_form p v b by simp
qed

lemma highlighted_iff: "highlighted c = (alpha3 c \<in> {''TUR'', ''TKM'', ''RUS'', ''POL''})"
  unfolding highlighted_def by blast

lemma labels_of_filter:
  "alpha3 ` set (filter (\<lambda>c. alpha3 c \<in> H) cs) = H \<inter> alpha3 ` set cs"
  by auto

lemma highlighted_labels:
  "alpha3 ` set (filter highlighted cs) = {''TUR'', ''TKM'', ''RUS'', ''POL''} \<inter> alpha3 ` set cs"
proof -
  have "filter highlighted cs = filter (\<lambda>c. alpha3 c \<in> {''TUR'', ''TKM'', ''RUS'', ''POL''}) cs"
    by (rule filter_cong) (simp_all only: highlighted_iff)
  then show ?thesis by (simp only: labels_of_filter)
qed

text \<open>
  Claim C6. Against a country table that lists the four codes, each once, the fill colour
  of a polygon is the highlight colour \<^verbatim>\<open>rgba(254,197,11,0.8)\<close> when its code is one of
  \<^verbatim>\<open>TUR TKM RUS POL\<close>, and the transparent \<^verbatim>\<open>rgba(0, 0, 0, 0)\<close> for every other code.
\<close>

theorem fill_color_highlight:
  assumes "{''TUR'', ''TKM'', ''RUS'', ''POL''} \<subseteq> alpha3 ` set cs"
    and "distinct (map alpha3 (filter highlighted cs))"
  shows "fill_color cs code =
           Some (if code \<in> {''TUR'', ''TKM'', ''RUS'', ''POL''}
                 then JStr ''rgba(254,197,11,0.8)'' else JStr ''rgba(0, 0, 0, 0)'')"
proof -
  have s: "alpha3 ` set (filter highlighted cs) = {''TUR'', ''TKM'', ''RUS'', ''POL''}"
    unfolding highlighted_labels using assms(1) by (rule Int_absorb2)
  have "''TUR'' \<in> alpha3 ` set (filter highlighted cs)"
    unfolding s by (rule insertI1)
  then have n: "filter highlighted cs \<noteq> []"
    by (cases "filter highlighted cs") simp_all
  show ?thesis
    unfolding fill_color_eq s using n assms(2) by (simp only: simp_thms if_True)
qed

lemma demo_countries_ok:
  "{''TUR'', ''TKM'', ''RUS'', ''POL''} \<subseteq> alpha3 ` set demo_countries"
  "distinct (map alpha3 (filter highlighted demo_countries))"
  by (simp_all add: demo_countries_def highlighted_def)

theorem fill_color_highlight_witness:
  "fill_color demo_countries ''TUR'' = Some (JStr ''rgba(254,197,11,0.8)'')
   \<and> fill_color demo_countries ''POL'' = Some (JStr ''rgba(254,197,11,0.8)'')
   \<and> fill_color demo_countries ''DEU'' = Some (JStr ''rgba(0, 0, 0, 0)'')
   \<and> fill_color demo_countries ''XXX'' = Some (JStr ''rgba(0, 0, 0, 0)'')"
  using fill_color_highlight [OF demo_countries_ok, of "''TUR''"]
    fill_color_highlight [OF demo_countries_ok, of "''POL''"]
    fill_color_highlight [OF demo_countries_ok, of "''DEU''"]
    fill_color_highlight [OF demo_countries_ok, of "''XXX''"]
  by simp

text \<open>
  The hypothesis on the table matters: against a table that spells the code otherwise, the
  expression has no branch for \<^verbatim>\<open>TUR\<close>.
\<close>

lemma fill_color_table_case:
  "fill_color [\<lparr>alpha3 = ''tur''\<rparr>, \<lparr>alpha3 = ''RUS''\<rparr>] ''TUR'' = Some (JStr ''rgba(0, 0, 0, 0)'')"
  by (simp add: fill_color_eq highlighted_def)

section \<open>The refresh loop\<close>

lemma fetchPlanes_frame:
  "isFetching (fetchPlanes outcome s) = isFetching s"
  "loop (fetchPlanes outcome s) = loop s"
  "uncaught (fetchPlanes outcome s) = uncaught s"
  by (auto simp: fetchPlanes_def fetchPlanes_try_def publish_def
      split: sum.splits option.splits source_spec.splits)

lemma fetchPlanes_map:
  "map_m (fetchPlanes outcome s) = map_m s
   \<or> (\<exists>m g. map_m s = Some m \<and> map_m (fetchPlanes outcome s) = Some (setData ''planes'' g m))"
  by (cases "map_m s")
     (auto simp: fetchPlanes_def fetchPlanes_try_def publish_def planes_lookup_def
      split: sum.splits option.splits source_spec.splits)

lemma with_map_frame:
  "isFetching (with_map f s) = isFetching s"
  "loop (with_map f s) = loop s"
  "console (with_map f s) = console s"
  "uncaught (with_map f s) = uncaught s"
  "map_m (with_map f s) = map_option f (map_m s)"
  by (simp_all add: with_map_def)

lemma load_handler_frame:
  "isFetching (load_handler d s) = isFetching s"
  "loop (load_handler d s) = loop s"
  "console (load_handler d s) = console s"
  "uncaught (load_handler d s) = uncaught s"
  by (simp_all add: load_handler_def Let_def with_map_frame)

lemma on_load_frame:
  "isFetching (on_load d s) = isFetching s"
  "loop (on_load d s) = loop s"
  "console (on_load d s) = console s"
  "uncaught (on_load d s) = uncaught s"
  by (simp_all add: on_load_def load_handler_frame split: option.splits)

lemma on_image_frame:
  "isFetching (on_image url err img s) = isFetching s"
  "loop (on_image url err img s) = loop s"
  "console (on_image url err img s) = console s"
  by (simp_all add: on_image_def image_callback_def Let_def split: option.splits)

lemma while_head_loop:
  "loop (while_head s) = (if isFetching s then AwaitFetch else Finished)"
  "isFetching (while_head s) = isFetching s"
  by (simp_all add: while_head_def)

lemma ngOnInit_loop: "loop (ngOnInit s) = AwaitFetch" "isFetching (ngOnInit s)"
  by (simp_all add: ngOnInit_def startFetchingPlanes_def while_head_def)

lemma ngOnDestroy_frame:
  "isFetching (ngOnDestroy s) = False"
  "loop (ngOnDestroy s) = loop s"
  by (simp_all add: ngOnDestroy_def split: option.splits)

lemma step_isFetching:
  "ev \<noteq> NgOnDestroy \<Longrightarrow> isFetching s \<Longrightarrow> isFetching (step d ev s)"
  by (cases ev)
     (simp_all add: ngOnInit_loop on_load_frame on_image_frame loop_body_def fetchPlanes_frame
        while_head_loop split: loop_pc.splits)

lemma step_finishes:
  "loop s \<noteq> Finished \<Longrightarrow> loop (step d ev s) = Finished \<Longrightarrow> ev = TimerFired \<and> \<not> isFetching s"
  by (cases ev)
     (auto simp: ngOnInit_loop on_load_frame on_image_frame loop_body_def fetchPlanes_frame
        while_head_loop ngOnDestroy_frame split: loop_pc.splits if_splits)

lemma step_finished:
  "loop s = Finished \<Longrightarrow> loop (step d ev s) = Finished"
  by (cases ev)
     (simp_all add: on_load_frame on_image_frame ngOnDestroy_frame)

lemma step_running:
  assumes "ev \<noteq> NgOnDestroy" and "isFetching s" and "loop s \<noteq> Finished"
  shows "isFetching (step d ev s) \<and> loop (step d ev s) \<noteq> Finished"
  using assms step_isFetching step_finishes by blast

lemma run_running:
  "NgOnDestroy \<notin> set evs \<Longrightarrow> isFetching s \<Longrightarrow> loop s \<noteq> Finished
   \<Longrightarrow> isFetching (run d evs s) \<and> loop (run d evs s) \<noteq> Finished"
proof (induction evs arbitrary: s)
  case Nil
  then show ?case by simp
next
  case (Cons ev evs)
  from Cons.prems have "ev \<noteq> NgOnDestroy" by auto
  with Cons.prems have "isFetching (step d ev s) \<and> loop (step d ev s) \<noteq> Finished"
    by (intro step_running) simp_all
  with Cons show ?case by simp
qed

lemma run_cycles:
  "loop s = AwaitFetch \<Longrightarrow> isFetching s
   \<Longrightarrow> loop (run d (cycles outcomes) s) = AwaitFetch \<and> isFetching (run d (cycles outcomes) s)"
proof (induction outcomes arbitrary: s)
  case Nil
  then show ?case by (simp add: cycles_def)
next
  case (Cons r outcomes)
  let ?s = "step d TimerFired (step d (HttpSettled r) s)"
  from Cons.prems have "loop ?s = AwaitFetch \<and> isFetching ?s"
    by (simp add: loop_body_def while_head_def fetchPlanes_frame)
  then have "loop (run d (cycles outcomes) ?s) = AwaitFetch \<and> isFetching (run d (cycles outcomes) ?s)"
    using Cons.IH by blast
  then show ?case by (simp add: cycles_def)
qed

lemma initial_loop: "loop initial = NotStarted"
  by (simp add: initial_def)

text \<open>
  Claim C5. \<^verbatim>\<open>ngOnInit\<close> sets the flag and starts the first cycle. A cycle is the rest of
  \<^verbatim>\<open>fetchPlanes\<close> followed by a delay of 1000; when the delay ends the next cycle starts if
  the flag is set and the loop ends if it is not. The loop ends in no other way, only
  \<^verbatim>\<open>ngOnDestroy\<close> clears the flag, and without it the loop never ends, whatever happens
  and however many cycles have run. \<^verbatim>\<open>ngOnDestroy\<close> clears the flag and leaves the loop
  where it is: a request in flight is still processed when it settles, and the loop ends
  at the delay after it. A loop that has ended stays so.
\<close>

theorem refresher_loop:
  "loop (step d NgOnInit initial) = AwaitFetch \<and> isFetching (step d NgOnInit initial)
   \<and> (loop s = AwaitFetch \<longrightarrow>
        step d (HttpSettled outcome) s = (fetchPlanes outcome s)\<lparr>loop := AwaitDelay 1000\<rparr>)
   \<and> (loop s = AwaitDelay ms \<longrightarrow>
        step d TimerFired s = s\<lparr>loop := if isFetching s then AwaitFetch else Finished\<rparr>)
   \<and> (loop s \<noteq> Finished \<and> loop (step d ev s) = Finished \<longrightarrow> ev = TimerFired \<and> \<not> isFetching s)
   \<and> (isFetching s \<and> \<not> isFetching (step d ev s) \<longrightarrow> ev = NgOnDestroy)
   \<and> (NgOnDestroy \<notin> set evs \<longrightarrow> loop (run d (NgOnInit # evs) initial) \<noteq> Finished)
   \<and> loop (run d (NgOnInit # cycles outcomes) initial) = AwaitFetch
   \<and> \<not> isFetching (step d NgOnDestroy s) \<and> loop (step d NgOnDestroy s) = loop s
   \<and> (loop s = AwaitFetch \<longrightarrow>
        run d [NgOnDestroy, HttpSettled outcome] s
          = (fetchPlanes outcome (ngOnDestroy s))\<lparr>loop := AwaitDelay 1000\<rparr>
        \<and> loop (run d [NgOnDestroy, HttpSettled outcome, TimerFired] s) = Finished)
   \<and> (loop s = Finished \<longrightarrow> loop (step d ev s) = Finished)"
proof -
  have start: "loop (step d NgOnInit initial) = AwaitFetch \<and> isFetching (step d NgOnInit initial)"
    by (simp add: initial_loop ngOnInit_loop)
  have cycle: "loop s = AwaitFetch \<longrightarrow>
        step d (HttpSettled outcome) s = (fetchPlanes outcome s)\<lparr>loop := AwaitDelay 1000\<rparr>"
    by (simp add: loop_body_def)
  have timer: "loop s = AwaitDelay ms \<longrightarrow>
        step d TimerFired s = s\<lparr>loop := if isFetching s then AwaitFetch else Finished\<rparr>"
    by (simp add: while_head_def)
  have fin: "loop s \<noteq> Finished \<and> loop (step d ev s) = Finished \<longrightarrow> ev = TimerFired \<and> \<not> isFetching s"
    using step_finishes by blast
  have clr: "isFetching s \<and> \<not> isFetching (step d ev s) \<longrightarrow> ev = NgOnDestroy"
    using step_isFetching by blast
  have nomax: "NgOnDestroy \<notin> set evs \<longrightarrow> loop (run d (NgOnInit # evs) initial) \<noteq> Finished"
    using run_running [of evs "step d NgOnInit initial" d] start by simp
  have cyc: "loop (run d (NgOnInit # cycles outcomes) initial) = AwaitFetch"
    using run_cycles [of "step d NgOnInit initial" d outcomes] start by simp
  have td: "\<not> isFetching (step d NgOnDestroy s) \<and> loop (step d NgOnDestroy s) = loop s"
    by (simp add: ngOnDestroy_frame)
  have fl: "loop s = AwaitFetch \<longrightarrow>
        run d [NgOnDestroy, HttpSettled outcome] s
          = (fetchPlanes outcome (ngOnDestroy s))\<lparr>loop := AwaitDelay 1000\<rparr>
        \<and> loop (run d [NgOnDestroy, HttpSettled outcome, TimerFired] s) = Finished"
    by (simp add: ngOnDestroy_frame loop_body_def while_head_def fetchPlanes_frame)
  have stay: "loop s = Finished \<longrightarrow> loop (step d ev s) = Finished"
    using step_finished by blast
  show ?thesis
    using start cycle timer fin clr nomax cyc td fl stay by blast
qed

theorem refresher_loop_witness:
  "loop (run demo_deps
       (NgOnInit # cycles [Inr demo_response, Inl (HttpError ''timeout''), Inr demo_missing]) initial)
     = AwaitFetch
   \<and> step demo_deps (HttpSettled (Inr demo_response)) demo_state
       = (fetchPlanes (Inr demo_response) demo_state)\<lparr>loop := AwaitDelay 1000\<rparr>
   \<and> step demo_deps TimerFired (demo_state\<lparr>loop := AwaitDelay 1000\<rparr>)
       = demo_state\<lparr>loop := AwaitFetch\<rparr>
   \<and> loop (run demo_deps [NgOnInit, MapLoad, HttpSettled (Inr demo_response), TimerFired] initial) \<noteq> Finished
   \<and> run demo_deps [NgOnDestroy, HttpSettled (Inr demo_response)] demo_state
       = (fetchPlanes (Inr demo_response) (ngOnDestroy demo_state))\<lparr>loop := AwaitDelay 1000\<rparr>
   \<and> loop (run demo_deps [NgOnDestroy, HttpSettled (Inr demo_response), TimerFired] demo_state) = Finished"
proof -
  note w1 = refresher_loop [where d = demo_deps and s = demo_state and outcome = "Inr demo_response"
      and outcomes = "[Inr demo_response, Inl (HttpError ''timeout''), Inr demo_missing]"
      and evs = "[MapLoad, HttpSettled (Inr demo_response), TimerFired]"]
  note w2 = refresher_loop [where d = demo_deps and s = "demo_state\<lparr>loop := AwaitDelay 1000\<rparr>"
      and ms = 1000]
  have n: "NgOnDestroy \<notin> set [MapLoad, HttpSettled (Inr demo_response), TimerFired]"
    by simp
  have l2: "loop (demo_state\<lparr>loop := AwaitDelay 1000\<rparr>) = AwaitDelay 1000"
    by simp
  from w2 l2
  have "step demo_deps TimerFired (demo_state\<lparr>loop := AwaitDelay 1000\<rparr>)
          = demo_state\<lparr>loop := AwaitDelay 1000\<rparr>
              \<lparr>loop := if isFetching (demo_state\<lparr>loop := AwaitDelay 1000\<rparr>) then AwaitFetch else Finished\<rparr>"
    by blast
  then have t: "step demo_deps TimerFired (demo_state\<lparr>loop := AwaitDelay 1000\<rparr>)
       = demo_state\<lparr>loop := AwaitFetch\<rparr>"
    by (simp add: demo_loop)
  from w1 demo_loop(1) n t show ?thesis by blast
qed

section \<open>Map setup\<close>

lemma run_append: "run d (xs @ ys) s = run d ys (run d xs s)"
  by (induction xs arbitrary: s) simp_all

lemma map_has_fetchPlanes:
  assumes "map_has P s" and "\<And>m g. P m \<Longrightarrow> P (setData ''planes'' g m)"
  shows "map_has P (fetchPlanes outcome s)"
  using fetchPlanes_map [of outcome s] assms by (auto simp: map_has_def split: option.splits)

lemma map_has_on_image:
  assumes "map_has P s"
    and "\<And>m r. P m \<Longrightarrow> P (m\<lparr>image_requests := r\<rparr>)"
    and "\<And>m n i. P m \<Longrightarrow> P (addImage n i m)"
  shows "map_has P (on_image url err img s)"
  using assms
  by (auto simp: map_has_def on_image_def image_callback_def Let_def split: option.splits)

lemma route_set_keep:
  "route_set m \<Longrightarrow> route_set (setData ''planes'' g m)"
  "route_set m \<Longrightarrow> route_set (m\<lparr>image_requests := r\<rparr>)"
  "route_set m \<Longrightarrow> route_set (addImage n i m)"
  by (simp_all add: route_set_def setData_def addImage_def)

lemma load_waiting_keep:
  "load_waiting m \<Longrightarrow> load_waiting (setData ''planes'' g m)"
  "load_waiting m \<Longrightarrow> load_waiting (m\<lparr>image_requests := r\<rparr>)"
  "load_waiting m \<Longrightarrow> load_waiting (addImage n i m)"
  by (simp_all add: load_waiting_def setData_def addImage_def)

lemma load_handler_route:
  "map_m s = Some m \<Longrightarrow> \<not> load_pending m \<Longrightarrow> \<not> removed m
   \<Longrightarrow> map_has route_set (load_handler d s)"
  by (simp add: load_handler_def Let_def with_map_def map_has_def route_set_def
      addSource_def addLayer_def loadImage_def)

lemma on_load_route:
  assumes "map_has load_waiting s"
  shows "map_has route_set (on_load d s)"
proof -
  from assms obtain m where m: "map_m s = Some m" and p: "load_pending m" and r: "\<not> removed m"
    by (auto simp: map_has_def load_waiting_def split: option.splits)
  have "map_has route_set (load_handler d (s\<lparr>map_m := Some (m\<lparr>load_pending := False\<rparr>)\<rparr>))"
    using r by (intro load_handler_route [of _ "m\<lparr>load_pending := False\<rparr>"]) simp_all
  with m p r show ?thesis by (simp add: on_load_def)
qed

lemma on_load_done:
  assumes "map_has route_set s"
  shows "on_load d s = s"
  using assms by (auto simp: map_has_def route_set_def on_load_def split: option.splits)

lemma step_keeps_pending:
  assumes "ev \<noteq> NgOnDestroy" and "ev \<noteq> MapLoad" and "loop s \<noteq> NotStarted" and "map_has load_waiting s"
  shows "loop (step d ev s) \<noteq> NotStarted \<and> map_has load_waiting (step d ev s)"
proof (cases ev)
  case NgOnInit
  with assms show ?thesis by simp
next
  case MapLoad
  with assms show ?thesis by simp
next
  case (ImageLoaded url err img)
  with assms show ?thesis
    by (simp add: on_image_frame map_has_on_image load_waiting_keep)
next
  case (HttpSettled outcome)
  have "map_has load_waiting (loop_body outcome s)"
    using map_has_fetchPlanes [OF assms(4), of outcome] 
    by (simp add: loop_body_def map_has_def load_waiting_keep)
  with HttpSettled assms show ?thesis by (simp add: loop_body_def)
next
  case TimerFired
  with assms show ?thesis by (auto simp: while_head_def map_has_def split: loop_pc.splits)
next
  case NgOnDestroy
  with assms show ?thesis by simp
qed

lemma step_keeps_route:
  assumes "ev \<noteq> NgOnDestroy" and "loop s \<noteq> NotStarted" and "map_has route_set s"
  shows "loop (step d ev s) \<noteq> NotStarted \<and> map_has route_set (step d ev s)"
proof (cases ev)
  case NgOnInit
  with assms show ?thesis by simp
next
  case MapLoad
  with assms show ?thesis by (simp add: on_load_done)
next
  case (ImageLoaded url err img)
  with assms show ?thesis
    by (simp add: on_image_frame map_has_on_image route_set_keep)
next
  case (HttpSettled outcome)
  have "map_has route_set (loop_body outcome s)"
    using map_has_fetchPlanes [OF assms(3), of outcome]
    by (simp add: loop_body_def map_has_def route_set_keep)
  with HttpSettled assms show ?thesis by (simp add: loop_body_def)
next
  case TimerFired
  with assms show ?thesis by (auto simp: while_head_def map_has_def split: loop_pc.splits)
next
  case NgOnDestroy
  with assms show ?thesis by simp
qed

lemma run_keeps_pending:
  "NgOnDestroy \<notin> set evs \<Longrightarrow> MapLoad \<notin> set evs \<Longrightarrow> loop s \<noteq> NotStarted \<Longrightarrow> map_has load_waiting s
   \<Longrightarrow> loop (run d evs s) \<noteq> NotStarted \<and> map_has load_waiting (run d evs s)"
proof (induction evs arbitrary: s)
  case Nil
  then show ?case by simp
next
  case (Cons ev evs)
  from Cons.prems have "loop (step d ev s) \<noteq> NotStarted \<and> map_has load_waiting (step d ev s)"
    by (intro step_keeps_pending) auto
  with Cons show ?case by simp
qed

lemma run_keeps_route:
  "NgOnDestroy \<notin> set evs \<Longrightarrow> loop s \<noteq> NotStarted \<Longrightarrow> map_has route_set s
   \<Longrightarrow> loop (run d evs s) \<noteq> NotStarted \<and> map_has route_set (run d evs s)"
proof (induction evs arbitrary: s)
  case Nil
  then show ?case by simp
next
  case (Cons ev evs)
  from Cons.prems have "loop (step d ev s) \<noteq> NotStarted \<and> map_has route_set (step d ev s)"
    by (intro step_keeps_route) auto
  with Cons show ?case by simp
qed

lemma ngOnInit_pending: "map_has load_waiting (step d NgOnInit initial)"
  by (simp add: initial_def ngOnInit_def initializeMap_def startFetchingPlanes_def
      while_head_def map_has_def load_waiting_def new_map_def)

lemma route_value:
  "route = \<lparr>geometry = \<lparr>geom_type = ''LineString'',
                        coordinates = JArr [JArr [JNum (308005 / 10000), JNum (369038 / 10000)],
                                            JArr [JNum (67668 / 10000), JNum (512895 / 10000)]]\<rparr>,
            properties = []\<rparr>"
  by (simp add: route_def turf_lineString_def antalya_def dusseldorf_def turf_point_def)

text \<open>
  Claim C7. Once the \<^verbatim>\<open>load\<close> handler has run, and whatever else has happened before
  teardown, the \<^verbatim>\<open>route\<close> source holds the line string of exactly the two positions
  (30.8005, 36.9038) and (6.7668, 51.2895), in this order.
\<close>

theorem route_fixed:
  "MapLoad \<in> set evs \<and> NgOnDestroy \<notin> set evs \<longrightarrow>
     route_source (run d (NgOnInit # evs) initial)
       = Some (GeoJSONSource (Feature
           \<lparr>geometry = \<lparr>geom_type = ''LineString'',
                        coordinates = JArr [JArr [JNum (308005 / 10000), JNum (369038 / 10000)],
                                            JArr [JNum (67668 / 10000), JNum (512895 / 10000)]]\<rparr>,
            properties = []\<rparr>))"
proof
  assume a: "MapLoad \<in> set evs \<and> NgOnDestroy \<notin> set evs"
  then obtain xs ys where evs: "evs = xs @ MapLoad # ys" and xs: "MapLoad \<notin> set xs"
    using split_list_first [of MapLoad evs] by blast
  let ?s0 = "step d NgOnInit initial"
  let ?s1 = "run d xs ?s0"
  have "loop ?s0 \<noteq> NotStarted" by (simp add: initial_loop ngOnInit_loop)
  with a evs xs have p: "loop ?s1 \<noteq> NotStarted \<and> map_has load_waiting ?s1"
    by (intro run_keeps_pending ngOnInit_pending) auto
  then have "map_has route_set (step d MapLoad ?s1)"
    by (simp add: on_load_route)
  moreover have "loop (step d MapLoad ?s1) \<noteq> NotStarted"
    using p by (simp add: on_load_frame)
  ultimately have "map_has route_set (run d ys (step d MapLoad ?s1))"
    using a evs by (intro run_keeps_route [THEN conjunct2]) auto
  then have "map_has route_set (run d evs ?s0)"
    by (simp add: evs run_append)
  then obtain m where m: "map_m (run d evs ?s0) = Some m"
      and r: "sources m ''route'' = Some (GeoJSONSource (Feature route))"
      and nr: "\<not> removed m"
    by (auto simp: map_has_def route_set_def split: option.splits)
  have "route_source (run d evs ?s0) = Some (GeoJSONSource (Feature route))"
    by (simp only: route_source_def source_named_def m option.case getSource_def nr if_False
        sum.case r)
  then show "route_source (run d (NgOnInit # evs) initial)
       = Some (GeoJSONSource (Feature
           \<lparr>geometry = \<lparr>geom_type = ''LineString'',
                        coordinates = JArr [JArr [JNum (308005 / 10000), JNum (369038 / 10000)],
                                            JArr [JNum (67668 / 10000), JNum (512895 / 10000)]]\<rparr>,
            properties = []\<rparr>))"
    unfolding route_value [symmetric] by (simp only: run.simps)
qed

theorem route_fixed_witness:
  "route_source (run demo_deps
       [NgOnInit, HttpSettled (Inr demo_response), MapLoad, TimerFired,
        ImageLoaded ''../../assets/img/plane.png'' None (Some (Image ''plane'')),
        HttpSettled (Inr demo_response), TimerFired, HttpSettled (Inl (HttpError ''timeout''))] initial)
     = Some (GeoJSONSource (Feature
           \<lparr>geometry = \<lparr>geom_type = ''LineString'',
                        coordinates = JArr [JArr [JNum (308005 / 10000), JNum (369038 / 10000)],
                                            JArr [JNum (67668 / 10000), JNum (512895 / 10000)]]\<rparr>,
            properties = []\<rparr>))"
  using route_fixed [of "[HttpSettled (Inr demo_response), MapLoad, TimerFired,
        ImageLoaded ''../../assets/img/plane.png'' None (Some (Image ''plane'')),
        HttpSettled (Inr demo_response), TimerFired, HttpSettled (Inl (HttpError ''timeout''))]" demo_deps]
  by simp

lemma layers_ok:
  "layer_ok airport_layer" "layer_ok planes_layer" "layer_ok route_layer"
  by (simp_all add: layer_ok_def expression_ok_def airport_layer_def planes_layer_def
      route_layer_def)

lemma countries_layer_ok:
  "layer_ok (countries_layer cs)
     = (filter highlighted cs \<noteq> [] \<and> distinct (map alpha3 (filter highlighted cs)))"
  by (simp add: layer_ok_def countries_layer_def expression_ok_def matchExpression_form
      match_valid_branches)

lemma load_handler_map:
  assumes "map_m s = Some m"
  shows "map_m (load_handler d s) =
     Some (m\<lparr>image_requests := image_requests m
                 @ [(''../../assets/img/airport.png'', ''airport-icon''),
                    (''../../assets/img/plane.png'', ''plane-icon'')],
              sources := (sources m)
                 (''airports'' \<mapsto> GeoJSONSource (FeatureCollection (map airport_feature (airportData d))),
                  ''planes'' \<mapsto> GeoJSONSource (FeatureCollection []),
                  ''route'' \<mapsto> GeoJSONSource (Feature route),
                  ''countries'' \<mapsto> VectorSource ''mapbox://mapbox.country-boundaries-v1''),
              layers := layers m
                 @ [(airport_layer, None), (planes_layer, None), (route_layer, None)]
                 @ (if layer_ok (countries_layer (countries d))
                    then [(countries_layer (countries d), Some ''admin-1-boundary-bg'')]
                    else [])\<rparr>)"
  using assms
  by (simp add: load_handler_def Let_def with_map_def addSource_def addLayer_def loadImage_def
      layers_ok)

lemma load_registers:
  assumes "map_m s = Some m" and "load_pending m" and "\<not> removed m"
  shows "pending_images (step d MapLoad s)
           = image_requests m @ [(''../../assets/img/airport.png'', ''airport-icon''),
                                  (''../../assets/img/plane.png'', ''plane-icon'')]"
    and "source_named ''airports'' (step d MapLoad s)
           = Some (GeoJSONSource (FeatureCollection (map airport_feature (airportData d))))"
    and "planes_source (step d MapLoad s) = Some (GeoJSONSource (FeatureCollection []))"
    and "route_source (step d MapLoad s) = Some (GeoJSONSource (Feature route))"
    and "source_named ''countries'' (step d MapLoad s)
           = Some (VectorSource ''mapbox://mapbox.country-boundaries-v1'')"
    and "layers_of (step d MapLoad s)
           = layers m @ [(airport_layer, None), (planes_layer, None), (route_layer, None)]
               @ (if filter highlighted (countries d) \<noteq> []
                     \<and> distinct (map alpha3 (filter highlighted (countries d)))
                  then [(countries_layer (countries d), Some ''admin-1-boundary-bg'')]
                  else [])"
proof -
  let ?s = "s\<lparr>map_m := Some (m\<lparr>load_pending := False\<rparr>)\<rparr>"
  have e: "step d MapLoad s = load_handler d ?s"
    using assms by (simp add: on_load_def)
  have h: "map_m (load_handler d ?s) =
     Some (m\<lparr>load_pending := False\<rparr>
            \<lparr>image_requests := image_requests (m\<lparr>load_pending := False\<rparr>)
                 @ [(''../../assets/img/airport.png'', ''airport-icon''),
                    (''../../assets/img/plane.png'', ''plane-icon'')],
              sources := (sources (m\<lparr>load_pending := False\<rparr>))
                 (''airports'' \<mapsto> GeoJSONSource (FeatureCollection (map airport_feature (airportData d))),
                  ''planes'' \<mapsto> GeoJSONSource (FeatureCollection []),
                  ''route'' \<mapsto> GeoJSONSource (Feature route),
                  ''countries'' \<mapsto> VectorSource ''mapbox://mapbox.country-boundaries-v1''),
              layers := layers (m\<lparr>load_pending := False\<rparr>)
                 @ [(airport_layer, None), (planes_layer, None), (route_layer, None)]
                 @ (if layer_ok (countries_layer (countries d))
                    then [(countries_layer (countries d), Some ''admin-1-boundary-bg'')]
                    else [])\<rparr>)"
    by (rule load_handler_map) simp
  show "pending_images (step d MapLoad s)
           = image_requests m @ [(''../../assets/img/airport.png'', ''airport-icon''),
                                  (''../../assets/img/plane.png'', ''plane-icon'')]"
    unfolding e pending_images_def h by simp
  show "source_named ''airports'' (step d MapLoad s)
           = Some (GeoJSONSource (FeatureCollection (map airport_feature (airportData d))))"
    unfolding e source_named_def h using assms(3) by (simp add: getSource_def)
  show "planes_source (step d MapLoad s) = Some (GeoJSONSource (FeatureCollection []))"
    unfolding e planes_source_def source_named_def h using assms(3) by (simp add: getSource_def)
  show "route_source (step d MapLoad s) = Some (GeoJSONSource (Feature route))"
    unfolding e route_source_def source_named_def h using assms(3) by (simp add: getSource_def)
  show "source_named ''countries'' (step d MapLoad s)
           = Some (VectorSource ''mapbox://mapbox.country-boundaries-v1'')"
    unfolding e source_named_def h using assms(3) by (simp add: getSource_def)
  show "layers_of (step d MapLoad s)
           = layers m @ [(airport_layer, None), (planes_layer, None), (route_layer, None)]
               @ (if filter highlighted (countries d) \<noteq> []
                     \<and> distinct (map alpha3 (filter highlighted (countries d)))
                  then [(countries_layer (countries d), Some ''admin-1-boundary-bg'')]
                  else [])"
    unfolding e layers_of_def h countries_layer_ok by simp
qed

lemma image_failed:
  assumes "map_m s = Some m" and "map_of (image_requests m) url = Some icon"
  shows "on_image url (Some e) img s
           = s\<lparr>map_m := Some (m\<lparr>image_requests := remove1 (url, icon) (image_requests m)\<rparr>),
               uncaught := uncaught s @ [e]\<rparr>"
  using assms by (simp add: on_image_def image_callback_def Let_def)

text \<open>
  Claim C8, as amended. The callback of an image load rethrows the error it is given. When
  a requested image fails, the error is left uncaught, nothing is logged and no image is
  registered, and nothing else of the component changes. Map initialization is not
  aborted: the \<^verbatim>\<open>load\<close> handler files both image requests and, in the same step and
  before any callback can run, registers the four sources \<^verbatim>\<open>airports\<close>, \<^verbatim>\<open>planes\<close>,
  \<^verbatim>\<open>route\<close> and \<^verbatim>\<open>countries\<close> and adds the layers \<^verbatim>\<open>airport\<close>, \<^verbatim>\<open>planes\<close> and \<^verbatim>\<open>route\<close>,
  and \<^verbatim>\<open>countries-join\<close> when the country table gives a fill colour expression the
  library accepts.
\<close>

theorem icon_failure:
  "image_callback icon (Some e) img s = Inl e
   \<and> (map_m s = Some m \<and> map_of (image_requests m) url = Some icon \<longrightarrow>
        step d (ImageLoaded url (Some e) img) s
          = s\<lparr>map_m := Some (m\<lparr>image_requests := remove1 (url, icon) (image_requests m)\<rparr>),
              uncaught := uncaught s @ [e]\<rparr>)
   \<and> (map_m s = Some m \<and> load_pending m \<and> \<not> removed m \<longrightarrow>
        pending_images (step d MapLoad s)
          = image_requests m @ [(''../../assets/img/airport.png'', ''airport-icon''),
                                 (''../../assets/img/plane.png'', ''plane-icon'')]
        \<and> source_named ''airports'' (step d MapLoad s)
          = Some (GeoJSONSource (FeatureCollection (map airport_feature (airportData d))))
        \<and> planes_source (step d MapLoad s) = Some (GeoJSONSource (FeatureCollection []))
        \<and> route_source (step d MapLoad s) = Some (GeoJSONSource (Feature route))
        \<and> source_named ''countries'' (step d MapLoad s)
          = Some (VectorSource ''mapbox://mapbox.country-boundaries-v1'')
        \<and> layers_of (step d MapLoad s)
          = layers m @ [(airport_layer, None), (planes_layer, None), (route_layer, None)]
              @ (if filter highlighted (countries d) \<noteq> []
                    \<and> distinct (map alpha3 (filter highlighted (countries d)))
                 then [(countries_layer (countries d), Some ''admin-1-boundary-bg'')]
                 else []))"
proof -
  have a: "image_callback icon (Some e) img s = Inl e"
    by (simp add: image_callback_def)
  have b: "step d (ImageLoaded url (Some e) img) s
          = s\<lparr>map_m := Some (m\<lparr>image_requests := remove1 (url, icon) (image_requests m)\<rparr>),
              uncaught := uncaught s @ [e]\<rparr>"
    if "map_m s = Some m" and "map_of (image_requests m) url = Some icon"
    using that by (simp add: image_failed)
  from a b load_registers [of s m d] show ?thesis by blast
qed

lemma demo_table_ok:
  "filter highlighted demo_countries \<noteq> [] \<and> distinct (map alpha3 (filter highlighted demo_countries))"
  by (simp add: demo_countries_def highlighted_def)

lemma demo_started_map:
  "map_m demo_started = Some (new_map\<lparr>load_pending := True\<rparr>)"
  "load_pending (new_map\<lparr>load_pending := True\<rparr>)"
  "\<not> removed (new_map\<lparr>load_pending := True\<rparr>)"
  by (simp_all add: demo_started_def initial_def ngOnInit_def initializeMap_def
      startFetchingPlanes_def while_head_def new_map_def)

lemma demo_started_frame:
  "loop demo_started = AwaitFetch" "console demo_started = []" "uncaught demo_started = []"
  by (simp_all add: demo_started_def initial_def ngOnInit_def initializeMap_def
      startFetchingPlanes_def while_head_def)

lemma demo_loaded_frame:
  "loop demo_loaded = AwaitFetch" "console demo_loaded = []" "uncaught demo_loaded = []"
  using demo_started_frame by (simp_all add: demo_loaded_def on_load_frame)

lemmas demo_registers = load_registers [OF demo_started_map, of demo_deps, folded demo_loaded_def]

lemma demo_loaded_map:
  "\<exists>m. map_m demo_loaded = Some m \<and> \<not> removed m
       \<and> image_requests m = [(''../../assets/img/airport.png'', ''airport-icon''),
                               (''../../assets/img/plane.png'', ''plane-icon'')]"
proof -
  from demo_registers(3) obtain m where m: "map_m demo_loaded = Some m" and r: "\<not> removed m"
    by (auto simp: planes_source_def source_named_def getSource_def split: option.splits if_splits)
  from demo_registers(1) m
  have "image_requests m = [(''../../assets/img/airport.png'', ''airport-icon''),
                            (''../../assets/img/plane.png'', ''plane-icon'')]"
    by (simp add: pending_images_def new_map_def)
  with m r show ?thesis by blast
qed

lemma demo_loaded_layers:
  "layers_of demo_loaded
     = [(airport_layer, None), (planes_layer, None), (route_layer, None),
        (countries_layer demo_countries, Some ''admin-1-boundary-bg'')]"
  using demo_registers(6) demo_table_ok by (simp add: demo_deps_def new_map_def)

lemma demo_torn_down_run: "demo_torn_down = ngOnDestroy demo_loaded"
  by (simp only: demo_torn_down_def demo_loaded_def demo_started_def run.simps step.simps)

lemma demo_failed_icon_run:
  "demo_failed_icon
     = on_image ''../../assets/img/airport.png'' (Some (ImageError ''404'')) None demo_loaded"
  by (simp only: demo_failed_icon_def demo_loaded_def demo_started_def run.simps step.simps)

text \<open>
  Claim C8 as stated fails: in the run where the airport icon fails to load, the error is
  uncaught and unlogged, and yet setup is complete. The four layers and the four sources
  are registered, the plane icon is still loading, the refresher is running, and its next
  cycle publishes.
\<close>

theorem icon_failure_counterexample:
  "uncaught demo_failed_icon = [ImageError ''404'']
   \<and> console demo_failed_icon = []
   \<and> layer_ids demo_failed_icon = [''airport'', ''planes'', ''route'', ''countries-join'']
   \<and> source_named ''airports'' demo_failed_icon
       = Some (GeoJSONSource (FeatureCollection (map airport_feature (airportData demo_deps))))
   \<and> planes_source demo_failed_icon = Some (GeoJSONSource (FeatureCollection []))
   \<and> route_source demo_failed_icon = Some (GeoJSONSource (Feature route))
   \<and> source_named ''countries'' demo_failed_icon
       = Some (VectorSource ''mapbox://mapbox.country-boundaries-v1'')
   \<and> pending_images demo_failed_icon = [(''../../assets/img/plane.png'', ''plane-icon'')]
   \<and> loop demo_failed_icon = AwaitFetch
   \<and> published_planes (step demo_deps (HttpSettled (Inr demo_response)) demo_failed_icon)
       = Some [spec_point demo_thy1, spec_point demo_thy5]"
proof -
  obtain m1 where m1: "map_m demo_loaded = Some m1" and nr1: "\<not> removed m1"
    and pend: "image_requests m1 = [(''../../assets/img/airport.png'', ''airport-icon''),
                                    (''../../assets/img/plane.png'', ''plane-icon'')]"
    using demo_loaded_map by blast
  have "map_of (image_requests m1) ''../../assets/img/airport.png'' = Some ''airport-icon''"
    by (simp add: pend)
  from image_failed [OF m1 this, of "ImageError ''404''" None]
  have f: "demo_failed_icon
             = demo_loaded\<lparr>map_m := Some (m1\<lparr>image_requests := [(''../../assets/img/plane.png'', ''plane-icon'')]\<rparr>),
                           uncaught := uncaught demo_loaded @ [ImageError ''404'']\<rparr>"
    by (simp add: demo_failed_icon_run pend)
  have u: "uncaught demo_failed_icon = [ImageError ''404'']"
    and c: "console demo_failed_icon = []"
    and l: "loop demo_failed_icon = AwaitFetch"
    unfolding f using demo_loaded_frame by simp_all
  have i: "pending_images demo_failed_icon = [(''../../assets/img/plane.png'', ''plane-icon'')]"
    unfolding f by (simp add: pending_images_def)
  have src: "source_named n demo_failed_icon = source_named n demo_loaded" for n
    unfolding f by (simp add: source_named_def m1 getSource_def)
  have "layers_of demo_failed_icon = layers_of demo_loaded"
    unfolding f by (simp add: layers_of_def m1)
  then have "layers_of demo_failed_icon
          = [(airport_layer, None), (planes_layer, None), (route_layer, None),
             (countries_layer demo_countries, Some ''admin-1-boundary-bg'')]"
    by (simp only: demo_loaded_layers)
  then have ids: "layer_ids demo_failed_icon = [''airport'', ''planes'', ''route'', ''countries-join'']"
    by (simp add: layers_of_def layer_ids_def airport_layer_def planes_layer_def route_layer_def
        countries_layer_def split: option.splits)
  have a: "source_named ''airports'' demo_failed_icon
       = Some (GeoJSONSource (FeatureCollection (map airport_feature (airportData demo_deps))))"
    unfolding src by (rule demo_registers(2))
  have p: "planes_source demo_failed_icon = Some (GeoJSONSource (FeatureCollection []))"
    unfolding planes_source_def src using demo_registers(3) by (simp only: planes_source_def)
  have r: "route_source demo_failed_icon = Some (GeoJSONSource (Feature route))"
    unfolding route_source_def src using demo_registers(4) by (simp only: route_source_def)
  have k: "source_named ''countries'' demo_failed_icon
       = Some (VectorSource ''mapbox://mapbox.country-boundaries-v1'')"
    unfolding src by (rule demo_registers(5))
  have "planes_source (fetchPlanes (Inr demo_response) demo_failed_icon)
          = Some (GeoJSONSource (FeatureCollection (map spec_point [demo_thy1, demo_thy5])))"
    using p demo_response_ok by (rule fetchPlanes_publishes)
  then have "published_planes (step demo_deps (HttpSettled (Inr demo_response)) demo_failed_icon)
       = Some [spec_point demo_thy1, spec_point demo_thy5]"
    by (simp add: l loop_body_def published_planes_def planes_source_def source_named_def)
  with u c ids a p r k i l show ?thesis by blast
qed

lemma demo_pending_request:
  "map_m demo_pending = Some demo_pending_map \<and>
   map_of (image_requests demo_pending_map) ''../../assets/img/plane.png'' = Some ''plane-icon''"
  by (simp add: demo_pending_def demo_pending_map_def)

theorem icon_failure_witness:
  "step demo_deps (ImageLoaded ''../../assets/img/plane.png'' (Some (ImageError ''404'')) None) demo_pending
     = demo_pending\<lparr>map_m := Some (demo_pending_map\<lparr>image_requests := []\<rparr>),
                    uncaught := [ImageError ''404'']\<rparr>
   \<and> pending_images (step demo_deps MapLoad demo_started)
       = [(''../../assets/img/airport.png'', ''airport-icon''),
          (''../../assets/img/plane.png'', ''plane-icon'')]
   \<and> source_named ''airports'' (step demo_deps MapLoad demo_started)
       = Some (GeoJSONSource (FeatureCollection (map airport_feature (airportData demo_deps))))
   \<and> planes_source (step demo_deps MapLoad demo_started)
       = Some (GeoJSONSource (FeatureCollection []))
   \<and> route_source (step demo_deps MapLoad demo_started)
       = Some (GeoJSONSource (Feature route))
   \<and> source_named ''countries'' (step demo_deps MapLoad demo_started)
       = Some (VectorSource ''mapbox://mapbox.country-boundaries-v1'')
   \<and> layers_of (step demo_deps MapLoad demo_started)
       = [(airport_layer, None), (planes_layer, None), (route_layer, None),
          (countries_layer demo_countries, Some ''admin-1-boundary-bg'')]"
proof -
  note w1 = icon_failure [where s = demo_pending and m = demo_pending_map and d = demo_deps
      and url = "''../../assets/img/plane.png''" and icon = "''plane-icon''"
      and e = "ImageError ''404''" and img = None]
  note w2 = icon_failure [where s = demo_started
      and m = "new_map\<lparr>load_pending := True\<rparr>" and d = demo_deps]
  from w1 demo_pending_request
  have "step demo_deps (ImageLoaded ''../../assets/img/plane.png'' (Some (ImageError ''404'')) None) demo_pending
     = demo_pending\<lparr>map_m := Some (demo_pending_map\<lparr>image_requests :=
           remove1 (''../../assets/img/plane.png'', ''plane-icon'') (image_requests demo_pending_map)\<rparr>),
         uncaught := uncaught demo_pending @ [ImageError ''404'']\<rparr>"
    by blast
  then have a: "step demo_deps (ImageLoaded ''../../assets/img/plane.png'' (Some (ImageError ''404'')) None) demo_pending
     = demo_pending\<lparr>map_m := Some (demo_pending_map\<lparr>image_requests := []\<rparr>),
                    uncaught := [ImageError ''404'']\<rparr>"
    by (simp add: demo_pending_def demo_pending_map_def)
  from w2 demo_started_map
  have b: "pending_images (step demo_deps MapLoad demo_started)
          = image_requests (new_map\<lparr>load_pending := True\<rparr>)
              @ [(''../../assets/img/airport.png'', ''airport-icon''),
                 (''../../assets/img/plane.png'', ''plane-icon'')]"
    and c: "source_named ''airports'' (step demo_deps MapLoad demo_started)
       = Some (GeoJSONSource (FeatureCollection (map airport_feature (airportData demo_deps))))"
    and p: "planes_source (step demo_deps MapLoad demo_started)
       = Some (GeoJSONSource (FeatureCollection []))"
    and r: "route_source (step demo_deps MapLoad demo_started)
       = Some (GeoJSONSource (Feature route))"
    and k: "source_named ''countries'' (step demo_deps MapLoad demo_started)
       = Some (VectorSource ''mapbox://mapbox.country-boundaries-v1'')"
    and l: "layers_of (step demo_deps MapLoad demo_started)
          = layers (new_map\<lparr>load_pending := True\<rparr>)
              @ [(airport_layer, None), (planes_layer, None), (route_layer, None)]
              @ (if filter highlighted (countries demo_deps) \<noteq> []
                    \<and> distinct (map alpha3 (filter highlighted (countries demo_deps)))
                 then [(countries_layer (countries demo_deps), Some ''admin-1-boundary-bg'')]
                 else [])"
    by blast+
  from b have b': "pending_images (step demo_deps MapLoad demo_started)
       = [(''../../assets/img/airport.png'', ''airport-icon''),
          (''../../assets/img/plane.png'', ''plane-icon'')]"
    by (simp only: new_map_def mapbox_map.simps append_Nil)
  have t: "filter highlighted (countries demo_deps) \<noteq> []
                    \<and> distinct (map alpha3 (filter highlighted (countries demo_deps)))"
    using demo_table_ok by (simp add: demo_deps_def)
  have l': "layers_of (step demo_deps MapLoad demo_started)
       = [(airport_layer, None), (planes_layer, None), (route_layer, None),
          (countries_layer demo_countries, Some ''admin-1-boundary-bg'')]"
    unfolding l using t by (simp add: new_map_def demo_deps_def)
  from a b' c p r k l' show ?thesis by blast
qed

section \<open>Cycles without a source\<close>

lemma planes_lookup_none:
  "(planes_lookup s = Inr None)
     = (map_m s = None \<or> (\<exists>m. map_m s = Some m \<and> \<not> removed m \<and> sources m ''planes'' = None))"
  by (auto simp: planes_lookup_def getSource_def split: option.splits)

lemma planes_lookup_throws:
  "(planes_lookup s = Inl e)
     = (e = TypeError ''getSource'' \<and> (\<exists>m. map_m s = Some m \<and> removed m))"
  by (auto simp: planes_lookup_def getSource_def split: option.splits)

lemma planes_lookup_ngOnDestroy:
  "map_m s = Some m \<Longrightarrow> planes_lookup (ngOnDestroy s) = Inl (TypeError ''getSource'')"
  by (simp add: planes_lookup_def ngOnDestroy_def remove_def getSource_def)

lemma fetchPlanes_keeps_map:
  assumes "planes_lookup s = Inr None \<or> planes_lookup s = Inl e"
  shows "map_m (fetchPlanes outcome s) = map_m s \<and> uncaught (fetchPlanes outcome s) = uncaught s"
proof (cases "fetchPlanes_try outcome s")
  case (Inl e')
  then show ?thesis by (simp add: fetchPlanes_failed)
next
  case (Inr s')
  from fetchPlanes_try_Inr [OF Inr] obtain fs
    where p: "publish fs s = Inr s'" and f: "fetchPlanes outcome s = s'"
    by blast
  from assms p have "s' = s"
    by (auto simp: publish_no_source publish_throws)
  with f show ?thesis by simp
qed

text \<open>
  Claim C9, as amended. When \<^verbatim>\<open>this.map?.getSource('planes')\<close> yields \<^verbatim>\<open>undefined\<close>, which
  is when there is no map or the map, not removed, has no \<^verbatim>\<open>planes\<close> source yet, the
  cycle leaves the map as it is and lets no exception escape; with a well-formed response
  it changes nothing at all and logs nothing. After \<^verbatim>\<open>ngOnDestroy\<close> the map is removed and
  the call throws before the guard is reached: the cycle publishes nothing, lets no
  exception escape, and with a well-formed response it logs that error.
\<close>

theorem no_source_no_publish:
  "(planes_lookup s = Inr None \<longrightarrow>
      map_m (fetchPlanes outcome s) = map_m s
    \<and> uncaught (fetchPlanes outcome s) = uncaught s
    \<and> (\<forall>response fs. outcome = Inr response \<and> planes_of_response response = Inr fs
          \<longrightarrow> fetchPlanes_try outcome s = Inr s \<and> fetchPlanes outcome s = s))
   \<and> (planes_lookup s = Inr None)
       = (map_m s = None
          \<or> (\<exists>m. map_m s = Some m \<and> \<not> removed m \<and> sources m ''planes'' = None))
   \<and> (planes_lookup s = Inl e \<longrightarrow>
      map_m (fetchPlanes outcome s) = map_m s
    \<and> uncaught (fetchPlanes outcome s) = uncaught s
    \<and> (\<forall>response fs. outcome = Inr response \<and> planes_of_response response = Inr fs
          \<longrightarrow> fetchPlanes outcome s = s\<lparr>console := console s @ [e]\<rparr>))
   \<and> (planes_lookup s = Inl e)
       = (e = TypeError ''getSource'' \<and> (\<exists>m. map_m s = Some m \<and> removed m))
   \<and> (map_m s = Some m \<longrightarrow> planes_lookup (ngOnDestroy s) = Inl (TypeError ''getSource''))"
proof -
  have a: "map_m (fetchPlanes outcome s) = map_m s \<and> uncaught (fetchPlanes outcome s) = uncaught s"
    if "planes_lookup s = Inr None"
    using that fetchPlanes_keeps_map by blast
  have b: "fetchPlanes_try outcome s = Inr s \<and> fetchPlanes outcome s = s"
    if "planes_lookup s = Inr None" and "outcome = Inr response"
      and "planes_of_response response = Inr fs" for response fs
    using that by (simp add: fetchPlanes_try_def fetchPlanes_def publish_no_source)
  have c: "map_m (fetchPlanes outcome s) = map_m s \<and> uncaught (fetchPlanes outcome s) = uncaught s"
    if "planes_lookup s = Inl e"
    using that fetchPlanes_keeps_map by blast
  have d: "fetchPlanes outcome s = s\<lparr>console := console s @ [e]\<rparr>"
    if "planes_lookup s = Inl e" and "outcome = Inr response"
      and "planes_of_response response = Inr fs" for response fs
    using that by (simp add: fetchPlanes_try_def fetchPlanes_def publish_throws)
  have f: "map_m s = Some m \<longrightarrow> planes_lookup (ngOnDestroy s) = Inl (TypeError ''getSource'')"
    by (simp add: planes_lookup_ngOnDestroy)
  from a b c d f planes_lookup_none [of s] planes_lookup_throws [of s e]
  show ?thesis by blast
qed

lemma demo_lookups:
  "planes_lookup initial = Inr None"
  "planes_lookup demo_started = Inr None"
  "planes_lookup demo_torn_down = Inl (TypeError ''getSource'')"
proof -
  show "planes_lookup initial = Inr None"
    by (simp add: planes_lookup_def initial_def)
  show "planes_lookup demo_started = Inr None"
    using demo_started_map by (simp add: planes_lookup_def getSource_def new_map_def)
  obtain m where "map_m demo_loaded = Some m"
    using demo_loaded_map by blast
  then show "planes_lookup demo_torn_down = Inl (TypeError ''getSource'')"
    unfolding demo_torn_down_run by (simp add: planes_lookup_ngOnDestroy)
qed

lemma demo_torn_down_state:
  "console demo_torn_down = []" "loop demo_torn_down = AwaitFetch"
  unfolding demo_torn_down_run using demo_loaded_frame
  by (simp_all add: ngOnDestroy_def split: option.splits)

text \<open>
  Claim C9 as stated fails for the torn-down map: with a request in flight at teardown and
  a well-formed response, the cycle does not complete without error but logs the
  \<^verbatim>\<open>TypeError\<close> of \<^verbatim>\<open>getSource\<close>.
\<close>

theorem torn_down_counterexample:
  "loop demo_torn_down = AwaitFetch
   \<and> console demo_torn_down = []
   \<and> planes_of_response demo_response = Inr [spec_point demo_thy1, spec_point demo_thy5]
   \<and> console (fetchPlanes (Inr demo_response) demo_torn_down) = [TypeError ''getSource'']
   \<and> console (step demo_deps (HttpSettled (Inr demo_response)) demo_torn_down)
       = [TypeError ''getSource'']"
proof -
  have r: "planes_of_response demo_response = Inr [spec_point demo_thy1, spec_point demo_thy5]"
    using demo_response_ok by simp
  have "fetchPlanes (Inr demo_response) demo_torn_down
          = demo_torn_down\<lparr>console := console demo_torn_down @ [TypeError ''getSource'']\<rparr>"
    by (simp add: fetchPlanes_def fetchPlanes_try_def r publish_throws [OF demo_lookups(3)])
  then have c: "console (fetchPlanes (Inr demo_response) demo_torn_down) = [TypeError ''getSource'']"
    by (simp add: demo_torn_down_state)
  then have "console (step demo_deps (HttpSettled (Inr demo_response)) demo_torn_down)
       = [TypeError ''getSource'']"
    by (simp add: demo_torn_down_state loop_body_def)
  with r c demo_torn_down_state show ?thesis by blast
qed

theorem no_source_no_publish_witness:
  "fetchPlanes (Inr demo_response) initial = initial
   \<and> fetchPlanes (Inr demo_response) demo_started = demo_started
   \<and> fetchPlanes (Inr demo_response) demo_torn_down
       = demo_torn_down\<lparr>console := console demo_torn_down @ [TypeError ''getSource'']\<rparr>"
proof -
  note w1 = no_source_no_publish [where s = initial and outcome = "Inr demo_response"]
  note w2 = no_source_no_publish [where s = demo_started and outcome = "Inr demo_response"]
  note w3 = no_source_no_publish [where s = demo_torn_down and outcome = "Inr demo_response"
      and e = "TypeError ''getSource''"]
  note r = demo_response_ok
  have a: "fetchPlanes (Inr demo_response) initial = initial"
  proof -
    note h = w1 [THEN conjunct1, THEN mp, OF demo_lookups(1)]
    note q = h [THEN conjunct2, THEN conjunct2]
    from q r show ?thesis by blast
  qed
  have b: "fetchPlanes (Inr demo_response) demo_started = demo_started"
  proof -
    note h = w2 [THEN conjunct1, THEN mp, OF demo_lookups(2)]
    note q = h [THEN conjunct2, THEN conjunct2]
    from q r show ?thesis by blast
  qed
  have c: "fetchPlanes (Inr demo_response) demo_torn_down
             = demo_torn_down\<lparr>console := console demo_torn_down @ [TypeError ''getSource'']\<rparr>"
  proof -
    note h = w3 [THEN conjunct2, THEN conjunct2, THEN conjunct1, THEN mp, OF demo_lookups(3)]
    note q = h [THEN conjunct2, THEN conjunct2]
    from q r show ?thesis by blast
  qed
  from a b c show ?thesis by (intro conjI)
qed

end
